theory Spec2Isabelle
  imports Main "HOL-Library.Sublist"
begin

section \<open>Values, exceptions and the world outside the case\<close>

text \<open>
  The values the case runner handles are the values of a parsed YAML document and what the
  runner itself builds from them: \<open>None\<close>, booleans, integers, strings, lists, tuples (the
  \<open>*args\<close> of a call), dictionaries with string keys in insertion order, and the bound
  methods the symbol table is seeded with (named by their key in \<open>builtins\<close>).
  A string is a sequence of code points below 256.
\<close>

datatype pyval =
    PNone
  | PBool bool
  | PInt int
  | PStr string
  | PList "pyval list"
  | PTuple "pyval list"
  | PDict "(string \<times> pyval) list"
  | PFun string

text \<open>
  Exceptions. \<open>TestFailure\<close>, \<open>ConfigError\<close> and \<open>CallError\<close> are the classes of
  caserunner.py; the others are Python's. \<open>OtherError\<close> is any further subclass of
  \<open>Exception\<close> that a collaborator raises (an \<open>OSError\<close>, a \<open>re.error\<close>, a
  \<open>SyntaxError\<close>). \<open>KeyboardInterrupt\<close> and \<open>SystemExit\<close> derive from
  \<open>BaseException\<close> only, so \<open>except Exception\<close> does not catch them.
\<close>

datatype exn =
    TestFailure
  | ConfigError string
  | CallError string
  | KeyboardInterrupt
  | SystemExit
  | ValueError string
  | Exception string
  | KeyError pyval
  | IndexError
  | TypeError
  | AttributeError
  | UnboundLocalError
  | NameError
  | UnicodeDecodeError
  | RecursionError
  | OtherError string

definition is_Exception :: "exn \<Rightarrow> bool" where
  "is_Exception e = (e \<noteq> KeyboardInterrupt \<and> e \<noteq> SystemExit)"

text \<open>
  The embedded code of a \<open>code\<close> directive: the fragment considered is a sequence of
  statements, each a call of a name with constant positional arguments (the result is
  dropped) or a \<open>raise\<close> of an exception.
\<close>

datatype stmt = Call string "pyval list" | Raise exn

text \<open>
  What \<open>subprocess.check_output\<close> does with a command line: the process exits with a code
  and its combined output (\<open>None\<close> when the bytes are not UTF-8), or the call itself raises
  (the command cannot be launched, the user interrupts).
\<close>

datatype proc = Exited int "string option" | Launch exn

text \<open>
  Everything the case consults outside itself, as parameters: the environment provider
  (\<open>testenv.Base\<close>: \<open>get_symbol\<close>, \<open>get_call\<close>, the \<open>call.target\<close> setting), and the
  Python runtime (\<open>subprocess\<close>, \<open>re.search\<close> with the groups of the match, \<open>os.environ\<close>,
  \<open>uuid.uuid4\<close>, the statements of a source text given to \<open>exec\<close> and how deep
  \<open>exec\<close> may nest before \<open>RecursionError\<close>, \<open>str.format\<close> on
  templates outside the fragment modelled below, \<open>str\<close> and \<open>repr\<close> of exception objects,
  \<open>traceback.format_tb\<close>, \<open>repr\<close> of a bound method).
\<close>

record world =
  get_symbol :: "string \<Rightarrow> exn + string"
  get_call :: "pyval list \<Rightarrow> (string \<times> pyval) list \<Rightarrow> exn + (string \<times> string option)"
  call_target :: string
  check_output :: "string \<Rightarrow> string option \<Rightarrow> proc"
  re_search :: "string \<Rightarrow> string \<Rightarrow> exn + string option list option"
  environ :: "string \<Rightarrow> string option"
  uuid4 :: string
  compile_src :: "string \<Rightarrow> exn + stmt list"
  recursion_limit :: nat
  str_format :: "string \<Rightarrow> pyval list \<Rightarrow> exn + string"
  exc_str :: "exn \<Rightarrow> string"
  exc_repr :: "exn \<Rightarrow> string"
  format_tb :: "exn \<Rightarrow> string"
  fun_repr :: "string \<Rightarrow> string"

section \<open>Python's \<open>str\<close>, \<open>repr\<close>, \<open>lower\<close>, truth values\<close>

function digits_of :: "nat \<Rightarrow> string" where
  "digits_of n = (if n < 10 then [char_of (48 + n)] else digits_of (n div 10) @ [char_of (48 + n mod 10)])"
  by pat_completeness auto
termination
  by (relation "measure id") auto

definition int_str :: "int \<Rightarrow> string" where
  "int_str i = (if i < 0 then ''-'' @ digits_of (nat (- i)) else digits_of (nat i))"

definition hex_digit :: "nat \<Rightarrow> char" where
  "hex_digit d = (if d < 10 then char_of (48 + d) else char_of (87 + d))"

definition printable :: "char \<Rightarrow> bool" where
  "printable c = (let n = (of_char c :: nat) in \<not> (n < 32 \<or> (127 \<le> n \<and> n \<le> 160) \<or> n = 173))"

definition repr_char :: "char \<Rightarrow> char \<Rightarrow> string" where
  "repr_char q c =
     (if c = q \<or> c = CHR 0x5C then [CHR 0x5C, c]
      else if c = CHR 0x09 then [CHR 0x5C, CHR ''t'']
      else if c = CHR 0x0A then [CHR 0x5C, CHR ''n'']
      else if c = CHR 0x0D then [CHR 0x5C, CHR ''r'']
      else if \<not> printable c then
        [CHR 0x5C, CHR ''x'', hex_digit ((of_char c :: nat) div 16), hex_digit ((of_char c :: nat) mod 16)]
      else [c])"

definition repr_str :: "string \<Rightarrow> string" where
  "repr_str s =
     (let q = (if CHR 0x27 \<in> set s \<and> CHR 0x22 \<notin> set s then CHR 0x22 else CHR 0x27)
      in [q] @ concat (map (repr_char q) s) @ [q])"

fun join :: "string \<Rightarrow> string list \<Rightarrow> string" where
  "join sep [] = []"
| "join sep [x] = x"
| "join sep (x # y # ys) = x @ sep @ join sep (y # ys)"

fun py_repr :: "(string \<Rightarrow> string) \<Rightarrow> pyval \<Rightarrow> string" where
  "py_repr fr PNone = ''None''"
| "py_repr fr (PBool b) = (if b then ''True'' else ''False'')"
| "py_repr fr (PInt i) = int_str i"
| "py_repr fr (PStr s) = repr_str s"
| "py_repr fr (PList xs) = ''['' @ join '', '' (map (py_repr fr) xs) @ '']''"
| "py_repr fr (PTuple xs) =
     (if length xs = 1 then ''('' @ join '', '' (map (py_repr fr) xs) @ '',)''
      else ''('' @ join '', '' (map (py_repr fr) xs) @ '')'')"
| "py_repr fr (PDict kvs) =
     ''{'' @ join '', '' (map (\<lambda>kv. repr_str (fst kv) @ '': '' @ py_repr fr (snd kv)) kvs) @ ''}''"
| "py_repr fr (PFun f) = fr f"

definition py_str :: "world \<Rightarrow> pyval \<Rightarrow> string" where
  "py_str E v = (case v of PStr s \<Rightarrow> s | _ \<Rightarrow> py_repr (fun_repr E) v)"

definition lower_char :: "char \<Rightarrow> char" where
  "lower_char c =
     (let n = (of_char c :: nat)
      in if (65 \<le> n \<and> n \<le> 90) \<or> (192 \<le> n \<and> n \<le> 222 \<and> n \<noteq> 215) then char_of (n + 32) else c)"

definition lower :: "string \<Rightarrow> string" where
  "lower s = map lower_char s"

fun truthy :: "pyval \<Rightarrow> bool" where
  "truthy PNone = False"
| "truthy (PBool b) = b"
| "truthy (PInt i) = (i \<noteq> 0)"
| "truthy (PStr s) = (s \<noteq> [])"
| "truthy (PList xs) = (xs \<noteq> [])"
| "truthy (PTuple xs) = (xs \<noteq> [])"
| "truthy (PDict kvs) = (kvs \<noteq> [])"
| "truthy (PFun f) = True"

fun hashable :: "pyval \<Rightarrow> bool" where
  "hashable (PList xs) = False"
| "hashable (PDict kvs) = False"
| "hashable (PTuple xs) = list_all hashable xs"
| "hashable v = True"

text \<open>
  A dict compares its keys with \<open>==\<close> (and their hashes), and \<open>True == 1\<close> and
  \<open>False == 0\<close>: a truth value names the entry of its number, also inside a tuple.
  \<open>dict_key\<close> gives the value that stands for a key in the table.
\<close>

fun dict_key :: "pyval \<Rightarrow> pyval" where
  "dict_key (PBool b) = PInt (if b then 1 else 0)"
| "dict_key (PTuple xs) = PTuple (map dict_key xs)"
| "dict_key v = v"

text \<open>\<open>len(v)\<close>: a \<open>TypeError\<close> for a value without a length.\<close>

fun py_len :: "pyval \<Rightarrow> exn + nat" where
  "py_len (PStr s) = Inr (length s)"
| "py_len (PList xs) = Inr (length xs)"
| "py_len (PTuple xs) = Inr (length xs)"
| "py_len (PDict kvs) = Inr (length kvs)"
| "py_len v = Inl TypeError"

text \<open>\<open>for x in v\<close>: the elements, the characters of a string, the keys of a dictionary.\<close>

fun py_iter :: "pyval \<Rightarrow> exn + pyval list" where
  "py_iter (PStr s) = Inr (map (\<lambda>c. PStr [c]) s)"
| "py_iter (PList xs) = Inr xs"
| "py_iter (PTuple xs) = Inr xs"
| "py_iter (PDict kvs) = Inr (map (\<lambda>kv. PStr (fst kv)) kvs)"
| "py_iter v = Inl TypeError"

text \<open>\<open>v.items()\<close>: only a dictionary has the method.\<close>

fun py_items :: "pyval \<Rightarrow> exn + (string \<times> pyval) list" where
  "py_items (PDict kvs) = Inr kvs"
| "py_items v = Inl AttributeError"

section \<open>Substituting symbols and arguments\<close>

text \<open>
  \<open>interpolate_symbols\<close>: \<open>re.sub\<close> of \<open>{([^}]+)}\<close>, leftmost matches first. A match starts
  at a \<open>{\<close> that is followed by at least one character other than \<open>}\<close> and then by a
  \<open>}\<close>; the name is everything in between.
\<close>

definition symbol_at :: "string \<Rightarrow> (string \<times> string) option" where
  "symbol_at cs =
     (let name = takeWhile (\<lambda>c. c \<noteq> CHR ''}'') cs; rest = dropWhile (\<lambda>c. c \<noteq> CHR ''}'') cs
      in if name \<noteq> [] \<and> rest \<noteq> [] then Some (name, tl rest) else None)"

lemma symbol_at_shorter: "symbol_at cs = Some (name, rest) \<Longrightarrow> length rest < Suc (length cs)"
  using length_dropWhile_le [of "\<lambda>c. c \<noteq> CHR ''}''" cs]
  by (auto simp: symbol_at_def Let_def split: if_splits)

function interpolate_symbols :: "string \<Rightarrow> (string \<Rightarrow> exn + string) \<Rightarrow> exn + string" where
  "interpolate_symbols [] resolver = Inr []"
| "interpolate_symbols (c # cs) resolver =
     (if c = CHR ''{'' then
        (case symbol_at cs of
           Some (name, rest) \<Rightarrow>
             (case resolver name of
                Inl e \<Rightarrow> Inl e
              | Inr v \<Rightarrow> (case interpolate_symbols rest resolver of Inl e \<Rightarrow> Inl e | Inr t \<Rightarrow> Inr (v @ t)))
         | None \<Rightarrow> (case interpolate_symbols cs resolver of Inl e \<Rightarrow> Inl e | Inr t \<Rightarrow> Inr (c # t)))
      else (case interpolate_symbols cs resolver of Inl e \<Rightarrow> Inl e | Inr t \<Rightarrow> Inr (c # t)))"
  by pat_completeness auto
termination
  by (relation "measure (\<lambda>(cs, r). length cs)") (auto dest: symbol_at_shorter)

text \<open>
  \<open>str.format(*args)\<close>. The template is cut into literal characters (\<open>{{\<close> and \<open>}}\<close>
  stand for one brace), replacement fields, and the place where the template is malformed.
  The fragment modelled has fields whose name is empty, a number of at most 18 digits, or
  a key; a field with an attribute, an index, a conversion or a format specification
  (one of \<open>{ [ . : !\<close> in it) puts the template outside, where \<open>str_format\<close> decides.
\<close>

datatype fmt_item = Lit char | Field string | Broken string

definition is_digit :: "char \<Rightarrow> bool" where
  "is_digit d = (48 \<le> (of_char d :: nat) \<and> (of_char d :: nat) \<le> 57)"

definition all_digits :: "string \<Rightarrow> bool" where
  "all_digits s = list_all is_digit s"

fun scan :: "string option \<Rightarrow> string \<Rightarrow> fmt_item list option" where
  "scan None [] = Some []"
| "scan None (c # cs) =
     (if c = CHR ''{'' then
        (case cs of
           d # cs' \<Rightarrow> (if d = CHR ''{'' then map_option (Cons (Lit c)) (scan None cs') else scan (Some []) cs)
         | [] \<Rightarrow> Some [Broken ''Single '{' encountered in format string''])
      else if c = CHR ''}'' then
        (case cs of
           d # cs' \<Rightarrow> (if d = CHR ''}'' then map_option (Cons (Lit c)) (scan None cs')
                       else Some [Broken ''Single '}' encountered in format string''])
         | [] \<Rightarrow> Some [Broken ''Single '}' encountered in format string''])
      else map_option (Cons (Lit c)) (scan None cs))"
| "scan (Some acc) [] = Some [Broken ''expected '}' before end of string'']"
| "scan (Some acc) (c # cs) =
     (if c = CHR ''}'' then
        (if all_digits acc \<and> 18 < length acc then None
         else map_option (Cons (Field (rev acc))) (scan None cs))
      else if c \<in> set ''{[.:!'' then None
      else scan (Some (c # acc)) cs)"

datatype numbering = Unnumbered | Automatic nat | Manual

definition nat_of_digits :: "string \<Rightarrow> nat" where
  "nat_of_digits s = foldl (\<lambda>a d. 10 * a + ((of_char d :: nat) - 48)) 0 s"

fun render :: "(pyval \<Rightarrow> string) \<Rightarrow> pyval list \<Rightarrow> numbering \<Rightarrow> fmt_item list \<Rightarrow> exn + string" where
  "render sf args st [] = Inr []"
| "render sf args st (Lit c # its) =
     (case render sf args st its of Inl e \<Rightarrow> Inl e | Inr t \<Rightarrow> Inr (c # t))"
| "render sf args st (Broken m # its) = Inl (ValueError m)"
| "render sf args st (Field name # its) =
     (if name = [] then
        (case st of
           Manual \<Rightarrow> Inl (ValueError ''cannot switch from manual field specification to automatic field numbering'')
         | _ \<Rightarrow>
           (let i = (case st of Automatic n \<Rightarrow> n | _ \<Rightarrow> 0)
            in if i < length args then
                 (case render sf args (Automatic (Suc i)) its of
                    Inl e \<Rightarrow> Inl e | Inr t \<Rightarrow> Inr (sf (args ! i) @ t))
               else Inl IndexError))
      else if all_digits name then
        (case st of
           Automatic n \<Rightarrow> Inl (ValueError ''cannot switch from automatic field numbering to manual field specification'')
         | _ \<Rightarrow>
           (let i = nat_of_digits name
            in if i < length args then
                 (case render sf args Manual its of
                    Inl e \<Rightarrow> Inl e | Inr t \<Rightarrow> Inr (sf (args ! i) @ t))
               else Inl IndexError))
      else Inl (KeyError (PStr name)))"

definition py_format :: "world \<Rightarrow> string \<Rightarrow> pyval list \<Rightarrow> exn + string" where
  "py_format E tmpl args =
     (case scan None tmpl of
        None \<Rightarrow> str_format E tmpl args
      | Some its \<Rightarrow> render (py_str E) args Unnumbered its)"

text \<open>\<open>msg.count("{}")\<close>.\<close>

fun count_placeholders :: "string \<Rightarrow> nat" where
  "count_placeholders (a # b # cs) =
     (if a = CHR ''{'' \<and> b = CHR ''}'' then Suc (count_placeholders cs) else count_placeholders (b # cs))"
| "count_placeholders cs = 0"

text \<open>
  \<open>TestCase.format_string(msg, *args)\<close>. \<open>re.sub\<close> raises \<open>TypeError\<close> on a \<open>msg\<close> that is
  not a string.
\<close>

definition format_string :: "world \<Rightarrow> pyval \<Rightarrow> pyval list \<Rightarrow> exn + string" where
  "format_string E msg args =
     (case msg of
        PStr m \<Rightarrow>
          (case interpolate_symbols m (get_symbol E) of
             Inl e \<Rightarrow> Inl e
           | Inr msg1 \<Rightarrow>
               if length args = 0 then Inr msg1
               else
                 (let count = count_placeholders msg1;
                      missing = int (length args) - int count;
                      msg2 = (if missing > 0 then msg1 @ '': '' @ concat (replicate (nat missing) ''{} '') else msg1)
                  in py_format E msg2 args))
      | _ \<Rightarrow> Inl TypeError)"

section \<open>The test case and its operations\<close>

datatype level = INFO | CRITICAL

text \<open>
  The fields of \<open>TestCase\<close> (\<open>setup\<close>, \<open>case\<close> and \<open>teardown\<close> carry the suffix
  \<open>_spec\<close>, \<open>output\<close> is \<open>case_output\<close>), and the lines handed to \<open>logging\<close>. The start and end times are left out.
\<close>

record testcase =
  failures :: "(string \<times> pyval \<times> pyval list) list"
  errors :: "(string \<times> pyval \<times> pyval list) list"
  case_output :: string
  idx :: int
  label :: string
  setup_spec :: "pyval list"
  case_spec :: "pyval list"
  teardown_spec :: "pyval list"
  last_return_code :: int
  last_call_output :: string
  local_symbols :: "pyval \<Rightarrow> pyval option"
  logged :: "(level \<times> string) list"

text \<open>
  A method is a function from the state of the case to a result, an exception (\<open>Inl\<close>) or
  a value, and the state it leaves: what was mutated before a \<open>raise\<close> stays mutated.
\<close>

type_synonym 'a act = "testcase \<Rightarrow> (exn + 'a) \<times> testcase"

definition ok :: "'a \<Rightarrow> 'a act" where
  "ok a = (\<lambda>s. (Inr a, s))"

definition raise :: "exn \<Rightarrow> 'a act" where
  "raise e = (\<lambda>s. (Inl e, s))"

definition lift :: "exn + 'a \<Rightarrow> 'a act" where
  "lift r = (\<lambda>s. (r, s))"

definition and_then :: "'a act \<Rightarrow> ('a \<Rightarrow> 'b act) \<Rightarrow> 'b act" where
  "and_then m f = (\<lambda>s. case m s of (Inl e, s') \<Rightarrow> (Inl e, s') | (Inr a, s') \<Rightarrow> f a s')"

definition seq :: "unit act \<Rightarrow> 'b act \<Rightarrow> 'b act" where
  "seq m k = and_then m (\<lambda>_. k)"

definition modify :: "(testcase \<Rightarrow> testcase) \<Rightarrow> unit act" where
  "modify f = (\<lambda>s. (Inr (), f s))"

definition reading :: "(testcase \<Rightarrow> 'a act) \<Rightarrow> 'a act" where
  "reading f = (\<lambda>s. f s s)"

fun for_each :: "('a \<Rightarrow> unit act) \<Rightarrow> 'a list \<Rightarrow> unit act" where
  "for_each f [] = ok ()"
| "for_each f (x # xs) = seq (f x) (for_each f xs)"

fun collect :: "('a \<Rightarrow> 'b act) \<Rightarrow> 'a list \<Rightarrow> 'b list act" where
  "collect f [] = ok []"
| "collect f (x # xs) = and_then (f x) (\<lambda>y. and_then (collect f xs) (\<lambda>ys. ok (y # ys)))"

definition record_failure :: "string \<Rightarrow> pyval \<Rightarrow> pyval list \<Rightarrow> unit act" where
  "record_failure status message args = modify (\<lambda>s. s\<lparr>failures := failures s @ [(status, message, args)]\<rparr>)"

definition record_error :: "string \<Rightarrow> pyval \<Rightarrow> pyval list \<Rightarrow> unit act" where
  "record_error status message args = modify (\<lambda>s. s\<lparr>errors := errors s @ [(status, message, args)]\<rparr>)"

definition print_out :: "world \<Rightarrow> pyval \<Rightarrow> pyval list \<Rightarrow> unit act" where
  "print_out E msg args =
     and_then (lift (format_string E (PStr (py_str E msg)) args))
       (\<lambda>t. modify (\<lambda>s. s\<lparr>case_output := case_output s @ t @ [CHR 0x0A]\<rparr>))"

definition expect :: "world \<Rightarrow> pyval \<Rightarrow> pyval \<Rightarrow> pyval list \<Rightarrow> unit act" where
  "expect E condition message args =
     (if \<not> truthy condition then
        seq (record_failure ''FAILED EXPECTATION'' message args)
            (print_out E (PStr ''# FAILED EXPECTATION'') (message # args))
      else ok ())"

definition fail :: "world \<Rightarrow> unit act" where
  "fail E = expect E (PBool False) (PStr ''failure'') []"

text \<open>\<open>"# FAILED ASSERTION: " + message\<close> is a \<open>TypeError\<close> when \<open>message\<close> is not a string.\<close>

definition assert_that :: "world \<Rightarrow> pyval \<Rightarrow> pyval \<Rightarrow> pyval list \<Rightarrow> unit act" where
  "assert_that E condition message args =
     (if \<not> truthy condition then
        seq (record_failure ''FAILED ASSERTION'' message args)
         (seq (case message of
                 PStr m \<Rightarrow> print_out E (PStr (''# FAILED ASSERTION: '' @ m)) args
               | _ \<Rightarrow> raise TypeError)
              (raise TestFailure))
      else ok ())"

definition abort :: "world \<Rightarrow> unit act" where
  "abort E = assert_that E (PBool False) (PStr ''abort called'') []"

text \<open>\<open>self.local_symbols[k] = v\<close> and \<open>self.local_symbols[k]\<close>.\<close>

definition set_symbol :: "pyval \<Rightarrow> pyval \<Rightarrow> unit act" where
  "set_symbol k v =
     (if hashable k then modify (\<lambda>s. s\<lparr>local_symbols := (local_symbols s)(dict_key k \<mapsto> v)\<rparr>)
      else raise TypeError)"

definition get_symbol_value :: "pyval \<Rightarrow> pyval act" where
  "get_symbol_value k =
     (if hashable k then
        reading (\<lambda>s. case local_symbols s (dict_key k) of None \<Rightarrow> raise (KeyError k) | Some v \<Rightarrow> ok v)
      else raise TypeError)"

definition log_raise :: "level \<Rightarrow> (string \<Rightarrow> exn) \<Rightarrow> string \<Rightarrow> 'a act" where
  "log_raise log_fn exception message =
     and_then (modify (\<lambda>s. s\<lparr>logged := logged s @ [(log_fn, message)]\<rparr>)) (\<lambda>_. raise (exception message))"

subsection \<open>Calling processes\<close>

definition call_external :: "world \<Rightarrow> string \<Rightarrow> string option \<Rightarrow> (int \<times> string) act" where
  "call_external E cmd chdir =
     seq (modify (\<lambda>s. s\<lparr>last_return_code := 0, last_call_output := []\<rparr>))
      (seq (print_out E (PStr ([CHR 0x0A] @ ''# Calling: '' @ cmd)) [])
        (case check_output E cmd chdir of
           Launch e \<Rightarrow> raise e
         | Exited return_code out \<Rightarrow>
             seq (if return_code \<noteq> 0
                  then modify (\<lambda>s. s\<lparr>case_output := case_output s @ ''# ... call did not succeed  ''\<rparr>)
                  else ok ())
              (case out of
                 None \<Rightarrow> raise UnicodeDecodeError
               | Some new_output \<Rightarrow>
                   seq (modify (\<lambda>s. s\<lparr>last_return_code := return_code,
                                       last_call_output := new_output,
                                       local_symbols := (local_symbols s)(PStr ''_last_call_output'' \<mapsto> PStr new_output),
                                       case_output := case_output s @ new_output\<rparr>))
                       (ok (return_code, new_output)))))"

definition call_allow_error :: "world \<Rightarrow> pyval list \<Rightarrow> (string \<times> pyval) list \<Rightarrow> (int \<times> string) act" where
  "call_allow_error E args kwargs =
     (case get_call E args kwargs of
        Inl e \<Rightarrow>
          if is_Exception e then raise (CallError (''could not resolve call: '' @ exc_str E e))
          else raise e
      | Inr (call, chdir) \<Rightarrow> call_external E call chdir)"

definition shell :: "world \<Rightarrow> pyval \<Rightarrow> pyval list \<Rightarrow> (int \<times> string) act" where
  "shell E cmd args =
     (case cmd of
        PStr c \<Rightarrow>
          and_then (lift (format_string E (PStr (c @ concat (replicate (length args) '' {}''))) args))
            (\<lambda>line. call_external E line None)
      | _ \<Rightarrow> raise TypeError)"

definition call_no_error :: "world \<Rightarrow> pyval list \<Rightarrow> (string \<times> pyval) list \<Rightarrow> string act" where
  "call_no_error E args kwargs =
     and_then (call_allow_error E args kwargs)
       (\<lambda>(return_code, out).
          seq (assert_that E (PBool (return_code = 0)) (PStr ''call failed: \"{}\"'') [PTuple args])
              (ok out))"

subsection \<open>Looking at the last output\<close>

fun is_substr :: "string \<Rightarrow> string \<Rightarrow> bool" where
  "is_substr sub [] = (sub = [])"
| "is_substr sub (c # cs) = (prefix sub (c # cs) \<or> is_substr sub cs)"

text \<open>
  \<open>last_output_contains(substr, **kwargs)\<close>: \<open>substr in text\<close> is a \<open>TypeError\<close> and
  \<open>substr.lower()\<close> an \<open>AttributeError\<close> when \<open>substr\<close> is not a string.
\<close>

definition last_output_contains :: "pyval \<Rightarrow> (string \<times> pyval) list \<Rightarrow> bool act" where
  "last_output_contains substr kwargs =
     reading (\<lambda>s.
       let case_sensitive = (case map_of kwargs ''case_sensitive'' of Some v \<Rightarrow> v | None \<Rightarrow> PBool False)
       in if truthy case_sensitive then
            (case substr of PStr u \<Rightarrow> ok (is_substr u (last_call_output s)) | _ \<Rightarrow> raise TypeError)
          else
            (case substr of
               PStr u \<Rightarrow> ok (is_substr (lower u) (lower (last_call_output s)))
             | _ \<Rightarrow> raise AttributeError))"

datatype severity = AssertThat | Expect

datatype aggregator = All | Any

definition check_several ::
  "world \<Rightarrow> severity \<Rightarrow> aggregator \<Rightarrow> (pyval \<Rightarrow> bool act) \<Rightarrow> pyval \<Rightarrow> pyval list \<Rightarrow> unit act" where
  "check_several E check which condition message values =
     and_then (lift (py_len message))
       (\<lambda>n. let default_message = (n = 0);
                label_check = (case check of AssertThat \<Rightarrow> ''required'' | Expect \<Rightarrow> ''expected'');
                label_which = (case which of All \<Rightarrow> ''all of'' | Any \<Rightarrow> ''any of'')
            in and_then
                 (if default_message then
                    lift (map_sum id PStr
                      (py_format E ''{}, but did not find, {} the following values in the preceding output: {}''
                         [PStr label_check, PStr label_which, PTuple values]))
                  else ok message)
                 (\<lambda>message'.
                    and_then (collect condition values)
                      (\<lambda>results.
                         (case check of AssertThat \<Rightarrow> assert_that | Expect \<Rightarrow> expect) E
                           (PBool (case which of All \<Rightarrow> list_all id results | Any \<Rightarrow> list_ex id results))
                           message' [])))"

definition contain_checker ::
  "world \<Rightarrow> severity \<Rightarrow> aggregator \<Rightarrow> bool \<Rightarrow> pyval list \<Rightarrow> (string \<times> pyval) list \<Rightarrow> unit act" where
  "contain_checker E check which contains values kwargs =
     (let message = (case map_of kwargs ''message'' of Some m \<Rightarrow> m | None \<Rightarrow> PStr []);
          kwargs' = filter (\<lambda>kv. fst kv \<noteq> ''message'') kwargs;
          condition = (\<lambda>substr.
            if contains then last_output_contains substr kwargs'
            else and_then (last_output_contains substr kwargs') (\<lambda>b. ok (\<not> b)))
      in check_several E check which condition message values)"

text \<open>
  \<open>assert_success(message=[], *args)\<close> assigns its default to \<open>mesage\<close> and passes
  \<open>message\<close> on as it came; \<open>assert_failure\<close> replaces a false \<open>message\<close>.
\<close>

definition assert_success :: "world \<Rightarrow> pyval list \<Rightarrow> unit act" where
  "assert_success E params =
     reading (\<lambda>s.
       let message = (case params of [] \<Rightarrow> PList [] | m # _ \<Rightarrow> m);
           args = (case params of [] \<Rightarrow> [] | _ # r \<Rightarrow> r)
       in assert_that E (PBool (last_return_code s = 0)) message args)"

definition assert_failure :: "world \<Rightarrow> pyval list \<Rightarrow> unit act" where
  "assert_failure E params =
     reading (\<lambda>s.
       let message = (case params of [] \<Rightarrow> PList [] | m # _ \<Rightarrow> m);
           args = (case params of [] \<Rightarrow> [] | _ # r \<Rightarrow> r);
           message' = (if truthy message then message else PStr ''expected last call to fail'')
       in assert_that E (PBool (last_return_code s \<noteq> 0)) message' args)"

subsection \<open>Extracting matches\<close>

definition capture_value :: "string option \<Rightarrow> pyval" where
  "capture_value c = (case c of None \<Rightarrow> PNone | Some t \<Rightarrow> PStr t)"

definition extract_match :: "world \<Rightarrow> pyval \<Rightarrow> pyval \<Rightarrow> pyval \<Rightarrow> unit act" where
  "extract_match E pattern variable group_variables =
     (if \<not> truthy pattern then raise (ConfigError ''extract_match requires pattern to match'')
      else if \<not> truthy variable \<and> \<not> truthy group_variables then
        raise (ConfigError ''extract_match requires variable or groups'')
      else if truthy variable \<and> truthy group_variables then
        raise (ConfigError ''extract_match cannot accept both variables and groups'')
      else
        seq (set_symbol variable PNone)
         (seq (if truthy group_variables then
                 and_then (lift (py_iter group_variables)) (for_each (\<lambda>variable_name. set_symbol variable_name PNone))
               else ok ())
           (reading (\<lambda>s.
              case pattern of
                PStr p \<Rightarrow>
                  (case re_search E p (last_call_output s) of
                     Inl e \<Rightarrow> raise e
                   | Inr None \<Rightarrow> ok ()
                   | Inr (Some captures) \<Rightarrow>
                       (case captures of
                          [] \<Rightarrow> ok ()
                        | first # _ \<Rightarrow>
                            seq (if truthy variable then set_symbol variable (capture_value first) else ok ())
                                (if truthy group_variables then
                                   and_then (lift (py_iter group_variables))
                                     (\<lambda>names. for_each
                                        (\<lambda>(i, variable_name).
                                           if length captures > i
                                           then set_symbol variable_name (capture_value (captures ! i))
                                           else ok ())
                                        (List.enumerate 0 names))
                                 else ok ())))
              | _ \<Rightarrow> raise TypeError))))"

subsection \<open>Reading the arguments of a directive\<close>

text \<open>\<open>key in v\<close>, \<open>v[key]\<close> for a string \<open>key\<close>, \<open>v[0]\<close> and the elements of \<open>v[start:]\<close>.\<close>

fun py_contains :: "pyval \<Rightarrow> string \<Rightarrow> exn + bool" where
  "py_contains (PDict kvs) key = Inr (key \<in> set (map fst kvs))"
| "py_contains (PList xs) key = Inr (PStr key \<in> set xs)"
| "py_contains (PTuple xs) key = Inr (PStr key \<in> set xs)"
| "py_contains (PStr t) key = Inr (is_substr key t)"
| "py_contains v key = Inl TypeError"

fun py_getitem :: "pyval \<Rightarrow> string \<Rightarrow> exn + pyval" where
  "py_getitem (PDict kvs) key = (case map_of kvs key of Some v \<Rightarrow> Inr v | None \<Rightarrow> Inl (KeyError (PStr key)))"
| "py_getitem v key = Inl TypeError"

fun py_first :: "pyval \<Rightarrow> exn + pyval" where
  "py_first (PList xs) = (case xs of [] \<Rightarrow> Inl IndexError | x # _ \<Rightarrow> Inr x)"
| "py_first (PTuple xs) = (case xs of [] \<Rightarrow> Inl IndexError | x # _ \<Rightarrow> Inr x)"
| "py_first (PStr t) = (case t of [] \<Rightarrow> Inl IndexError | c # _ \<Rightarrow> Inr (PStr [c]))"
| "py_first (PDict kvs) = Inl (KeyError (PInt 0))"
| "py_first v = Inl TypeError"

fun py_slice_from :: "nat \<Rightarrow> pyval \<Rightarrow> exn + pyval list" where
  "py_slice_from start (PList xs) = Inr (drop start xs)"
| "py_slice_from start (PTuple xs) = Inr (drop start xs)"
| "py_slice_from start (PStr t) = Inr (map (\<lambda>c. PStr [c]) (drop start t))"
| "py_slice_from start v = Inl TypeError"

definition dict_set :: "string \<Rightarrow> pyval \<Rightarrow> (string \<times> pyval) list \<Rightarrow> (string \<times> pyval) list" where
  "dict_set k v kvs =
     (if k \<in> set (map fst kvs) then map (\<lambda>kv. if fst kv = k then (k, v) else kv) kvs else kvs @ [(k, v)])"

definition get_variable_or_literal :: "world \<Rightarrow> pyval \<Rightarrow> pyval act" where
  "get_variable_or_literal E m =
     and_then (lift (py_len m))
       (\<lambda>n. if n > 1 then
               log_raise CRITICAL ValueError
                 (''expected each element to contain only one of \"variable\", \"literal\", but got '' @ py_str E m)
             else
               and_then (lift (py_items m))
                 (\<lambda>items. case items of
                    [] \<Rightarrow> raise UnboundLocalError
                  | (type, item) # _ \<Rightarrow>
                      if type = ''variable'' then get_symbol_value item
                      else if type \<noteq> ''literal'' then
                        raise (ConfigError (''expected \"variable\" or \"literal\", got \"'' @ type @ ''\":\"\"''
                                              @ py_str E item @ ''\"''))
                      else ok item))"

definition get_yaml_values :: "world \<Rightarrow> pyval list \<Rightarrow> pyval list act" where
  "get_yaml_values E list = collect (get_variable_or_literal E) list"

definition lookup_values :: "world \<Rightarrow> pyval list \<Rightarrow> pyval list act" where
  "lookup_values E strings =
     collect (\<lambda>p. if hashable p then
                     reading (\<lambda>s. ok (case local_symbols s (dict_key p) of
                                         Some v \<Rightarrow> v
                                       | None \<Rightarrow> PStr (''\"'' @ py_str E p @ ''\"'')))
                   else raise TypeError) strings"

type_synonym call_args = "pyval list option \<times> (string \<times> pyval) list option"

definition yaml_args_string :: "world \<Rightarrow> pyval \<Rightarrow> call_args act" where
  "yaml_args_string E parts =
     (if parts = PNone then ok (Some [], Some [])
      else and_then (lift (py_len parts))
             (\<lambda>n. if n = 0 then ok (Some [], Some [])
                   else and_then (lift (py_first parts))
                          (\<lambda>first. and_then (lift (py_slice_from 1 parts))
                             (\<lambda>rest. and_then (lookup_values E rest)
                                (\<lambda>looked_up. ok (Some (first # looked_up), Some []))))))"

definition params_for_set :: "pyval \<Rightarrow> (pyval \<times> pyval) act" where
  "params_for_set parts =
     and_then (lift (py_len parts))
       (\<lambda>n. if n < 2 then log_raise CRITICAL ValueError ''need both \"name\" and \"variable\"''
             else and_then (lift (py_getitem parts ''variable''))
                    (\<lambda>v. and_then (lift (py_getitem parts ''name'')) (\<lambda>nm. ok (v, nm))))"

definition get_env :: "world \<Rightarrow> pyval \<Rightarrow> exn + pyval" where
  "get_env E env_var =
     (case env_var of
        PStr k \<Rightarrow> (case environ E k of None \<Rightarrow> Inl (KeyError (PStr k)) | Some v \<Rightarrow> Inr (PStr v))
      | _ \<Rightarrow> Inl TypeError)"

definition yaml_get_env :: "world \<Rightarrow> pyval \<Rightarrow> call_args act" where
  "yaml_get_env E parts =
     and_then (params_for_set parts)
       (\<lambda>(var_name, env_var).
          and_then (lift (get_env E env_var))
            (\<lambda>value. seq (set_symbol var_name value) (ok (None, None))))"

definition get_uuid :: "world \<Rightarrow> pyval" where
  "get_uuid E = PStr (uuid4 E)"

definition yaml_get_uuid :: "world \<Rightarrow> pyval \<Rightarrow> call_args act" where
  "yaml_get_uuid E var_name = seq (set_symbol var_name (get_uuid E)) (ok (None, None))"

definition yaml_extract_match :: "pyval \<Rightarrow> call_args act" where
  "yaml_extract_match parts =
     (case parts of
        PDict kvs \<Rightarrow>
          (let get = (\<lambda>k. case map_of kvs k of Some v \<Rightarrow> v | None \<Rightarrow> PNone)
           in ok (Some [get ''pattern'', get ''variable'', get ''groups''], None))
      | _ \<Rightarrow> raise AttributeError)"

fun params_loop ::
  "world \<Rightarrow> string \<Rightarrow> pyval \<Rightarrow> (string \<times> pyval) list \<Rightarrow> pyval list \<Rightarrow> (string \<times> pyval) list
     \<Rightarrow> (pyval list \<times> (string \<times> pyval) list) act" where
  "params_loop E key_cmd cmd [] args params = ok (args, params)"
| "params_loop E key_cmd cmd ((key, val) # rest) args params =
     (if key = key_cmd then
        (if val \<noteq> cmd then
           log_raise CRITICAL ValueError
             (''encountered multiple \"- '' @ key_cmd @ ''\": \"'' @ py_str E cmd @ ''\" vs \"'' @ py_str E val @ ''\"'')
         else params_loop E key_cmd cmd rest args params)
      else if key = ''params'' then
        and_then (lift (py_items val))
          (\<lambda>named. and_then
             (collect (\<lambda>(name, value). and_then (get_variable_or_literal E value) (\<lambda>v. ok (name, v))) named)
             (\<lambda>resolved. params_loop E key_cmd cmd rest args (foldl (\<lambda>d (name, v). dict_set name v d) params resolved)))
      else if key = ''args'' then
        and_then (lift (py_iter val))
          (\<lambda>elems. and_then (collect (get_variable_or_literal E) elems)
             (\<lambda>resolved. params_loop E key_cmd cmd rest (args @ resolved) params))
      else log_raise CRITICAL ValueError (''unknown argument to function call \"- '' @ key @ ''\"''))"

definition params_for_call :: "world \<Rightarrow> pyval \<Rightarrow> call_args act" where
  "params_for_call E parts =
     (let key_cmd = call_target E
      in and_then (lift (py_len parts))
           (\<lambda>n. and_then (if n < 1 then ok False else lift (py_contains parts key_cmd))
              (\<lambda>present.
                 if n < 1 \<or> \<not> present then
                   log_raise CRITICAL ValueError
                     (''when calling artifacts, the first parameter must be \"- '' @ key_cmd @ '': TARGET\"'')
                 else
                   and_then (lift (py_getitem parts key_cmd))
                     (\<lambda>cmd. if n = 1 then ok (Some [cmd], Some [])
                            else and_then (lift (py_items parts))
                                   (\<lambda>items. and_then (params_loop E key_cmd cmd items [] [])
                                      (\<lambda>(args, params). ok (Some (cmd # args), Some params)))))))"

definition string_and_params :: "world \<Rightarrow> string \<Rightarrow> pyval \<Rightarrow> bool \<Rightarrow> (pyval list \<times> pyval) act" where
  "string_and_params E name_label parts strict =
     and_then (lift (py_first parts))
       (\<lambda>first. and_then (lift (py_contains first name_label))
          (\<lambda>present.
             and_then
               (if present then and_then (lift (py_getitem first name_label)) (\<lambda>v. ok (v, 1))
                else if strict then log_raise CRITICAL ValueError (''expected field \"'' @ name_label @ ''\"'')
                else ok (PStr [], 0))
               (\<lambda>(name_value, start).
                  and_then (lift (py_slice_from start parts))
                    (\<lambda>rest. and_then (get_yaml_values E rest) (\<lambda>params. ok (params, name_value))))))"

definition params_for_contains :: "world \<Rightarrow> pyval \<Rightarrow> call_args act" where
  "params_for_contains E parts =
     and_then (string_and_params E ''message'' parts False)
       (\<lambda>(params, message).
          ok (Some params, Some [(''case_sensitive'', PBool False), (''message'', message)]))"

subsection \<open>Embedded code and the call of a handler\<close>

text \<open>
  \<open>execute(code)\<close> is \<open>exec(code, None, self.local_symbols)\<close>. A called name is looked
  up in the symbol table (the programs of the fragment call no name of the module or of
  Python's builtins, so a name unbound there is unbound); \<open>inner\<close> calls a bound method
  from inside the code, and is \<open>None\<close> where the nesting of \<open>exec\<close> has reached its limit.
\<close>

definition exec_stmt :: "(string \<Rightarrow> pyval list \<Rightarrow> unit act) \<Rightarrow> stmt \<Rightarrow> unit act" where
  "exec_stmt inner st =
     (case st of
        Call f args \<Rightarrow>
          reading (\<lambda>s. case local_symbols s (PStr f) of
                          None \<Rightarrow> raise NameError
                        | Some (PFun g) \<Rightarrow> inner g args
                        | Some _ \<Rightarrow> raise TypeError)
      | Raise e \<Rightarrow> raise e)"

definition execute :: "world \<Rightarrow> (string \<Rightarrow> pyval list \<Rightarrow> unit act) option \<Rightarrow> pyval \<Rightarrow> unit act" where
  "execute E inner code =
     (case inner of
        None \<Rightarrow> raise RecursionError
      | Some bound \<Rightarrow>
          (case code of
             PStr src \<Rightarrow>
               (case compile_src E src of
                  Inl e \<Rightarrow> raise e
                | Inr prog \<Rightarrow> for_each (exec_stmt bound) prog)
           | _ \<Rightarrow> raise TypeError))"

text \<open>
  The call \<open>f(*args, **kwargs)\<close> of the bound method stored under \<open>name\<close>: Python binds
  the arguments to the parameters and raises \<open>TypeError\<close> when they do not fit. Keyword
  arguments reach only the methods declared with \<open>**kwargs\<close>: the adapters of the others
  return \<open>{}\<close> or \<open>None\<close>, and embedded code passes positional arguments.
\<close>

definition invoke_at ::
  "world \<Rightarrow> (string \<Rightarrow> pyval list \<Rightarrow> unit act) option \<Rightarrow> string \<Rightarrow> pyval list \<Rightarrow> (string \<times> pyval) list \<Rightarrow> unit act" where
  "invoke_at E inner name args kwargs =
     (if name = ''call'' then and_then (call_no_error E args kwargs) (\<lambda>_. ok ())
      else if name = ''call_may_fail'' then and_then (call_allow_error E args kwargs) (\<lambda>_. ok ())
      else if name = ''assert_contains_any'' then contain_checker E AssertThat Any True args kwargs
      else if name = ''assert_excludes'' then contain_checker E AssertThat All False args kwargs
      else if name = ''assert_not_contains'' then contain_checker E AssertThat All False args kwargs
      else if name = ''assert_contains'' then contain_checker E AssertThat All True args kwargs
      else if name = ''assert_excludes_any'' then contain_checker E AssertThat Any False args kwargs
      else if kwargs \<noteq> [] then raise TypeError
      else if name = ''shell'' then
        (case args of cmd # rest \<Rightarrow> and_then (shell E cmd rest) (\<lambda>_. ok ()) | [] \<Rightarrow> raise TypeError)
      else if name = ''uuid'' then (if args = [] then ok () else raise TypeError)
      else if name = ''env'' then
        (case args of [env_var] \<Rightarrow> and_then (lift (get_env E env_var)) (\<lambda>_. ok ()) | _ \<Rightarrow> raise TypeError)
      else if name = ''log'' then
        (case args of msg # rest \<Rightarrow> print_out E msg rest | [] \<Rightarrow> raise TypeError)
      else if name = ''extract_match'' then
        (case args of
           [pattern] \<Rightarrow> extract_match E pattern PNone PNone
         | [pattern, variable] \<Rightarrow> extract_match E pattern variable PNone
         | [pattern, variable, group_variables] \<Rightarrow> extract_match E pattern variable group_variables
         | _ \<Rightarrow> raise TypeError)
      else if name = ''code'' then
        (case args of [code] \<Rightarrow> execute E inner code | _ \<Rightarrow> raise TypeError)
      else if name = ''fail'' then (if args = [] then fail E else raise TypeError)
      else if name = ''expect'' then
        (case args of condition # message # rest \<Rightarrow> expect E condition message rest | _ \<Rightarrow> raise TypeError)
      else if name = ''abort'' then (if args = [] then abort E else raise TypeError)
      else if name = ''assert_that'' then
        (case args of condition # message # rest \<Rightarrow> assert_that E condition message rest | _ \<Rightarrow> raise TypeError)
      else if name = ''assert_success'' then assert_success E args
      else if name = ''assert_failure'' then assert_failure E args
      else raise TypeError)"

primrec invoke :: "world \<Rightarrow> nat \<Rightarrow> string \<Rightarrow> pyval list \<Rightarrow> (string \<times> pyval) list \<Rightarrow> unit act" where
  "invoke E 0 = invoke_at E None"
| "invoke E (Suc depth) = invoke_at E (Some (\<lambda>name args. invoke E depth name args []))"

subsection \<open>The directive table and \<open>run_segment\<close>\<close>

datatype adapter =
    Params_for_call | Yaml_args_string | Yaml_get_uuid | Yaml_get_env
  | Yaml_extract_match | Code_argument | Params_for_contains

text \<open>\<open>self.builtins\<close>: the value or bound method of each name, and its \<open>yaml_prep\<close>.\<close>

definition builtins_table :: "int \<Rightarrow> string \<Rightarrow> (string \<times> pyval \<times> adapter option) list" where
  "builtins_table i l =
     [(''testcase_num'', PInt i, None),
      (''testcase_id'', PStr l, None),
      (''_last_call_output'', PStr [], None),
      (''call'', PFun ''call'', Some Params_for_call),
      (''call_may_fail'', PFun ''call_may_fail'', Some Params_for_call),
      (''shell'', PFun ''shell'', Some Yaml_args_string),
      (''uuid'', PFun ''uuid'', Some Yaml_get_uuid),
      (''env'', PFun ''env'', Some Yaml_get_env),
      (''log'', PFun ''log'', Some Yaml_args_string),
      (''extract_match'', PFun ''extract_match'', Some Yaml_extract_match),
      (''code'', PFun ''code'', Some Code_argument),
      (''fail'', PFun ''fail'', None),
      (''expect'', PFun ''expect'', None),
      (''abort'', PFun ''abort'', None),
      (''assert_that'', PFun ''assert_that'', None),
      (''assert_contains_any'', PFun ''assert_contains_any'', Some Params_for_contains),
      (''assert_excludes'', PFun ''assert_excludes'', Some Params_for_contains),
      (''assert_not_contains'', PFun ''assert_not_contains'', Some Params_for_contains),
      (''assert_contains'', PFun ''assert_contains'', Some Params_for_contains),
      (''assert_excludes_any'', PFun ''assert_excludes_any'', Some Params_for_contains),
      (''assert_success'', PFun ''assert_success'', Some Yaml_args_string),
      (''assert_failure'', PFun ''assert_failure'', Some Yaml_args_string)]"

definition builtins :: "testcase \<Rightarrow> string \<Rightarrow> (pyval \<times> adapter option) option" where
  "builtins s = map_of (builtins_table (idx s) (label s))"

text \<open>\<open>TestCase.__init__\<close>.\<close>

definition new_testcase :: "int \<Rightarrow> string \<Rightarrow> pyval list \<Rightarrow> pyval list \<Rightarrow> pyval list \<Rightarrow> testcase" where
  "new_testcase i l setup_segments case_segments teardown_segments =
     \<lparr>failures = [], errors = [], case_output = [], idx = i, label = l,
      setup_spec = setup_segments, case_spec = case_segments, teardown_spec = teardown_segments,
      last_return_code = 0, last_call_output = [],
      local_symbols = (\<lambda>k. case k of PStr n \<Rightarrow> map_option fst (map_of (builtins_table i l) n) | _ \<Rightarrow> None),
      logged = []\<rparr>"

definition adapt :: "world \<Rightarrow> adapter \<Rightarrow> pyval \<Rightarrow> call_args act" where
  "adapt E a segment =
     (case a of
        Params_for_call \<Rightarrow> params_for_call E segment
      | Yaml_args_string \<Rightarrow> yaml_args_string E segment
      | Yaml_get_uuid \<Rightarrow> yaml_get_uuid E segment
      | Yaml_get_env \<Rightarrow> yaml_get_env E segment
      | Yaml_extract_match \<Rightarrow> yaml_extract_match segment
      | Code_argument \<Rightarrow> ok (Some [segment], Some [])
      | Params_for_contains \<Rightarrow> params_for_contains E segment)"

definition call_value :: "world \<Rightarrow> pyval \<Rightarrow> pyval list \<Rightarrow> (string \<times> pyval) list \<Rightarrow> unit act" where
  "call_value E v args kwargs =
     (case v of PFun name \<Rightarrow> invoke E (recursion_limit E) name args kwargs | _ \<Rightarrow> raise TypeError)"

text \<open>
  \<open>run_segment\<close>. Its first statement is \<open>raise ConfigError\<close>: Python instantiates the
  class without the \<open>msg\<close> that \<open>ConfigError.__init__\<close> requires, and that call raises
  \<open>TypeError\<close>.
\<close>

definition run_segment :: "world \<Rightarrow> pyval \<Rightarrow> unit act" where
  "run_segment E spec_segment =
     and_then (lift (py_len spec_segment))
       (\<lambda>n. if n > 1 then raise TypeError
             else
               and_then (lift (py_items spec_segment))
                 (\<lambda>items. case items of
                    [] \<Rightarrow> ok ()
                  | (directive, segment) # _ \<Rightarrow>
                      reading (\<lambda>s.
                        case builtins s directive of
                          None \<Rightarrow> raise (ConfigError (''unknown YAML directive: '' @ directive))
                        | Some (handler, prep) \<Rightarrow>
                            (case prep of
                               None \<Rightarrow>
                                 raise (ConfigError (''directive only available inside a code directive: '' @ directive))
                             | Some a \<Rightarrow>
                                 and_then (adapt E a segment)
                                   (\<lambda>(args, kwargs).
                                      if args = None \<and> kwargs = None then ok ()
                                      else call_value E handler
                                             (case args of None \<Rightarrow> [] | Some xs \<Rightarrow> xs)
                                             (case kwargs of None \<Rightarrow> [] | Some kvs \<Rightarrow> kvs))))))"

section \<open>Running the case\<close>

definition run_segments_of :: "world \<Rightarrow> pyval list \<Rightarrow> unit act" where
  "run_segments_of E stage_spec = for_each (run_segment E) stage_spec"

definition run_stage :: "world \<Rightarrow> string \<Rightarrow> pyval list \<Rightarrow> unit act" where
  "run_stage E stage_name stage_spec =
     seq (print_out E (PStr ([CHR 0x0A] @ ''### Test case '' @ stage_name)) [])
         (run_segments_of E stage_spec)"

text \<open>The \<open>except\<close> clauses after SETUP and TEST, for an exception raised in \<open>stage_name\<close>.\<close>

definition handle_main :: "world \<Rightarrow> string \<Rightarrow> exn \<Rightarrow> unit act" where
  "handle_main E stage_name e =
     (case e of
        TestFailure \<Rightarrow> ok ()
      | CallError msg \<Rightarrow>
          (let status = ''CALL ERROR in stage '' @ stage_name @ '' ''
           in seq (record_error status (PStr msg) []) (print_out E (PStr (status @ '': '' @ msg)) []))
      | KeyboardInterrupt \<Rightarrow>
          (let status = ''KEYBOARD INTERRUPT in stage '' @ stage_name @ '' ''
           in seq (record_error status (PStr ''keyboard interrupt detected'') [])
                (seq (print_out E (PStr status) []) (raise KeyboardInterrupt)))
      | _ \<Rightarrow>
          if is_Exception e then
            (let status = ''UNHANDLED EXCEPTION in stage '' @ stage_name @ '' '';
                 short_description = exc_repr E e;
                 description = short_description @ [CHR 0x0A] @ format_tb E e
             in seq (record_error status (PStr description) [])
                    (print_out E (PStr (''# EXCEPTION!! '' @ short_description)) []))
          else raise e)"

text \<open>The \<open>except\<close> clauses of the \<open>finally\<close> block.\<close>

definition handle_teardown :: "world \<Rightarrow> exn \<Rightarrow> unit act" where
  "handle_teardown E e =
     (case e of
        TestFailure \<Rightarrow>
          (let status = ''unexpected TEST FAILURE in stage TEARDOWN''
           in seq (record_error status (PStr ''test failure in stage TEARDOWN'') []) (print_out E (PStr status) []))
      | CallError msg \<Rightarrow>
          (let status = ''CALL ERROR in stage TEARDOWN ''
           in seq (record_error status (PStr msg) []) (print_out E (PStr (status @ '': '' @ msg)) []))
      | KeyboardInterrupt \<Rightarrow>
          (let status = ''KEYBOARD INTERRUPT in stage TEARDOWN''
           in seq (record_error status (PStr ''keyboard interrupt detected'') [])
                (seq (print_out E (PStr status) []) (raise KeyboardInterrupt)))
      | _ \<Rightarrow>
          if is_Exception e then
            (let status = ''UNHANDLED EXCEPTION in stage TEARDOWN'';
                 short_description = exc_repr E e;
                 description = short_description @ [CHR 0x0A] @ format_tb E e
             in seq (record_error status (PStr description) [])
                    (print_out E (PStr (''# EXCEPTION!! '' @ short_description)) []))
          else raise e)"

text \<open>
  The \<open>try\<close> statement of \<open>run\<close>: SETUP then TEST, one handler for both.
\<close>

definition main_block :: "world \<Rightarrow> unit act" where
  "main_block E =
     (\<lambda>s. case run_stage E ''SETUP'' (setup_spec s) s of
             (Inl e, s1) \<Rightarrow> handle_main E ''SETUP'' e s1
           | (Inr _, s1) \<Rightarrow>
               (case run_stage E ''TEST'' (case_spec s) s1 of
                  (Inl e, s2) \<Rightarrow> handle_main E ''TEST'' e s2
                | (Inr _, s2) \<Rightarrow> (Inr (), s2)))"

definition teardown_block :: "world \<Rightarrow> unit act" where
  "teardown_block E =
     (\<lambda>s. case run_stage E ''TEARDOWN'' (teardown_spec s) s of
             (Inl e, s1) \<Rightarrow> handle_teardown E e s1
           | (Inr _, s1) \<Rightarrow> (Inr (), s1))"

subsection \<open>The summary\<close>

fun split_lines :: "string \<Rightarrow> string list" where
  "split_lines [] = [[]]"
| "split_lines (c # cs) =
     (if c = CHR 0x0A then [] # split_lines cs
      else (case split_lines cs of [] \<Rightarrow> [[c]] | l # ls \<Rightarrow> (c # l) # ls))"

definition reindent :: "string \<Rightarrow> nat \<Rightarrow> string \<Rightarrow> string" where
  "reindent t numSpaces prompt =
     join [CHR 0x0A] (map (\<lambda>line. replicate numSpaces CHR '' '' @ prompt @ line) (split_lines t))"

definition get_output :: "testcase \<Rightarrow> nat \<Rightarrow> string \<Rightarrow> string" where
  "get_output s indent header = reindent (case_output s) indent header"

definition info :: "string \<Rightarrow> unit act" where
  "info line = modify (\<lambda>s. s\<lparr>logged := logged s @ [(INFO, line)]\<rparr>)"

definition log_entry_prefix :: "testcase \<Rightarrow> string" where
  "log_entry_prefix s = ''---- Test case '' @ int_str (idx s) @ '': \"'' @ label s @ ''\"''"

text \<open>The statements of \<open>run\<close> after the \<open>try\<close> statement; \<open>print_output\<close> is always true.\<close>

definition summarize :: "world \<Rightarrow> nat act" where
  "summarize E =
     reading (\<lambda>s0.
       seq (if length (failures s0) > 0 then
              seq (info (log_entry_prefix s0 @ '' FAILED --------------------''))
                  (for_each (\<lambda>failure.
                      and_then (lift (format_string E (fst (snd failure)) (snd (snd failure))))
                        (\<lambda>t. info (''    '' @ fst failure @ '': '' @ t)))
                    (failures s0))
            else if length (errors s0) > 0 then
              seq (info (log_entry_prefix s0 @ '' ERRORED --------------------''))
                  (for_each (\<lambda>error.
                      and_then (lift (format_string E (fst (snd error)) (snd (snd error))))
                        (\<lambda>t. info (''    '' @ fst error @ '': (check state: clean-up did not finish) '' @ t)))
                    (errors s0))
            else info (log_entry_prefix s0 @ '' PASSED ------------------------------''))
        (seq (info ''    Output:'')
          (seq (reading (\<lambda>s. info (get_output s 4 ''| '' @ [CHR 0x0A])))
               (reading (\<lambda>s. ok (length (failures s) + length (errors s)))))))"

text \<open>
  \<open>run\<close>: the \<open>finally\<close> block runs whatever the \<open>try\<close> statement did; an exception
  leaving it replaces the pending one, otherwise the pending one propagates, otherwise
  the summary follows.
\<close>

definition run :: "world \<Rightarrow> nat act" where
  "run E =
     (\<lambda>s. case main_block E s of
             (pending, s1) \<Rightarrow>
               (case teardown_block E s1 of
                  (Inl e2, s2) \<Rightarrow> (Inl e2, s2)
                | (Inr _, s2) \<Rightarrow>
                    (case pending of
                       Inl e1 \<Rightarrow> (Inl e1, s2)
                     | Inr _ \<Rightarrow> summarize E s2)))"

section \<open>A concrete world\<close>

text \<open>
  One environment to run examples in: the symbol \<open>name\<close> resolves to \<open>world\<close> and no
  other symbol resolves; the target \<open>sample\<close> resolves to the command \<open>echo ok\<close>;
  \<open>exit 1\<close> exits with code 1, \<open>sleep 60\<close> is interrupted from the keyboard;
  \<open>re.search\<close> knows the pattern \<open>(\d+)\<close>; the source \<open>abort()\<close> is the one program.
\<close>

fun first_digits :: "string \<Rightarrow> string option" where
  "first_digits [] = None"
| "first_digits (c # cs) = (if is_digit c then Some (takeWhile is_digit (c # cs)) else first_digits cs)"

definition digits_pattern :: string where
  "digits_pattern = ''('' @ [CHR 0x5C] @ ''d+)''"

definition demo_world :: world where
  "demo_world =
     \<lparr>get_symbol = (\<lambda>n. if n = ''name'' then Inr ''world'' else Inl (KeyError (PStr n))),
      get_call = (\<lambda>args kwargs. if args = [PStr ''sample''] then Inr (''echo ok'', None)
                                  else Inl (OtherError ''unknown target'')),
      call_target = ''target'',
      check_output = (\<lambda>cmd chdir.
         if cmd = ''echo ok'' then Exited 0 (Some ''ok'')
         else if cmd = ''exit 1'' then Exited 1 (Some [])
         else if cmd = ''sleep 60'' then Launch KeyboardInterrupt
         else Exited 127 (Some ''not found'')),
      re_search = (\<lambda>p t. if p = digits_pattern then Inr (map_option (\<lambda>d. [Some d]) (first_digits t))
                            else Inr None),
      environ = (\<lambda>k. None),
      uuid4 = ''00000000-0000-4000-8000-000000000000'',
      compile_src = (\<lambda>src. if src = ''abort()'' then Inr [Call ''abort'' []]
                              else Inl (OtherError ''invalid syntax'')),
      recursion_limit = 100,
      str_format = (\<lambda>t args. Inl (ValueError ''unsupported format string'')),
      exc_str = (\<lambda>e. case e of OtherError m \<Rightarrow> m | _ \<Rightarrow> []),
      exc_repr = (\<lambda>e. case e of
                        KeyError k \<Rightarrow> ''KeyError('' @ py_repr (\<lambda>f. f) k @ '')''
                      | TypeError \<Rightarrow> ''TypeError()''
                      | _ \<Rightarrow> ''Exception()''),
      format_tb = (\<lambda>e. []),
      fun_repr = (\<lambda>f. ''<bound method '' @ f @ ''>'')\<rparr>"

text \<open>The case after one successful call of the target \<open>sample\<close>.\<close>

definition after_echo :: testcase where
  "after_echo = snd (call_allow_error demo_world [PStr ''sample''] [] (new_testcase 1 ''demo'' [] [] []))"

text \<open>A case whose TEST stage checks the output against a variable that was never set.\<close>

definition unbound_case :: testcase where
  "unbound_case =
     new_testcase 2 ''unbound'' []
       [PDict [(''assert_contains'', PList [PDict [(''variable'', PStr ''nope'')]])]] []"

text \<open>Cases to run in that world.\<close>

definition abort_case :: testcase where
  "abort_case = new_testcase 4 ''abort'' []
     [PDict [(''code'', PStr ''abort()'')], PDict [(''log'', PList [PStr ''not reached''])]]
     [PDict [(''log'', PList [PStr ''bye''])]]"

definition abort_then_interrupt_case :: testcase where
  "abort_then_interrupt_case = new_testcase 3 ''interrupted teardown'' []
     [PDict [(''code'', PStr ''abort()'')]]
     [PDict [(''shell'', PList [PStr ''sleep 60''])]]"

definition interrupted_setup_case :: testcase where
  "interrupted_setup_case = new_testcase 5 ''interrupted setup''
     [PDict [(''shell'', PList [PStr ''sleep 60''])]]
     [PDict [(''log'', PList [PStr ''test''])]]
     [PDict [(''log'', PList [PStr ''cleanup''])]]"

definition interrupted_test_case :: testcase where
  "interrupted_test_case = new_testcase 9 ''interrupted test'' []
     [PDict [(''shell'', PList [PStr ''sleep 60''])]] []"

definition failed_call_case :: testcase where
  "failed_call_case = new_testcase 6 ''failed call'' []
     [PDict [(''shell'', PList [PStr ''exit 1''])], PDict [(''assert_success'', PList [])]] []"

definition empty_case :: testcase where
  "empty_case = new_testcase 7 ''empty'' [] [] []"

text \<open>Cases that have captured an output: \<open>X marks the spot\<close>, and \<open>count: 42\<close>.\<close>

definition shouting_state :: testcase where
  "shouting_state = after_echo\<lparr>last_call_output := ''X marks the spot''\<rparr>"

definition count_state :: testcase where
  "count_state = after_echo\<lparr>last_call_output := ''count: 42''\<rparr>"

text \<open>
  The keyword arguments a containment check gets by default: none when embedded code
  calls it with values only, and \<open>case_sensitive\<close> false with a message (empty when the
  directive gives none) from \<open>params_for_contains\<close>.
\<close>

fun default_kwargs :: "(string \<times> pyval) list \<Rightarrow> bool" where
  "default_kwargs [] = True"
| "default_kwargs [(k1, v1), (k2, PStr msg)] =
     (k1 = ''case_sensitive'' \<and> v1 = PBool False \<and> k2 = ''message'')"
| "default_kwargs kwargs = False"

text \<open>\<open>isinstance(v, str)\<close>.\<close>

fun is_str :: "pyval \<Rightarrow> bool" where
  "is_str (PStr u) = True"
| "is_str v = False"

text \<open>\<open>parts.get(k)\<close> on the argument block of a directive.\<close>

definition entry :: "(string \<times> pyval) list \<Rightarrow> string \<Rightarrow> pyval" where
  "entry kvs k = (case map_of kvs k of Some v \<Rightarrow> v | None \<Rightarrow> PNone)"

section \<open>Where a stage stops\<close>

text \<open>The case as the first directive of a stage finds it: the heading is in the transcript.\<close>

definition enter_stage :: "string \<Rightarrow> testcase \<Rightarrow> testcase" where
  "enter_stage stage_name s =
     s\<lparr>case_output := case_output s @ [CHR 0x0A] @ ''### Test case '' @ stage_name @ [CHR 0x0A]\<rparr>"

text \<open>
  The specification of a stage of the \<open>try\<close> statement, and the outcome of what runs before
  its first directive: nothing but the heading for SETUP; SETUP and the heading for TEST.
\<close>

definition stage_spec_of :: "testcase \<Rightarrow> string \<Rightarrow> pyval list" where
  "stage_spec_of s stage_name = (if stage_name = ''SETUP'' then setup_spec s else case_spec s)"

definition stage_start :: "world \<Rightarrow> testcase \<Rightarrow> string \<Rightarrow> (exn + unit) \<times> testcase" where
  "stage_start E s stage_name =
     (if stage_name = ''SETUP'' then (Inr (), enter_stage ''SETUP'' s)
      else (case run_segments_of E (setup_spec s) (enter_stage ''SETUP'' s) of
              (Inl e, s0) \<Rightarrow> (Inl e, s0)
            | (Inr u, s0) \<Rightarrow> (Inr (), enter_stage ''TEST'' s0)))"

text \<open>
  \<open>aborts_at E s stage_name before d after e s2\<close>: in the run of the case \<open>s\<close>, the stage
  \<open>stage_name\<close> (SETUP, or TEST after a SETUP that completed) has the directives
  \<open>before\<close>, \<open>d\<close>, \<open>after\<close>; those before \<open>d\<close> complete, and \<open>d\<close> raises \<open>e\<close> and leaves
  the case as \<open>s2\<close>.
\<close>

definition aborts_at ::
  "world \<Rightarrow> testcase \<Rightarrow> string \<Rightarrow> pyval list \<Rightarrow> pyval \<Rightarrow> pyval list \<Rightarrow> exn \<Rightarrow> testcase \<Rightarrow> bool" where
  "aborts_at E s stage_name before d after e s2 =
     ((stage_name = ''SETUP'' \<or> stage_name = ''TEST'')
      \<and> stage_spec_of s stage_name = before @ d # after
      \<and> (case stage_start E s stage_name of
            (Inl e0, s0) \<Rightarrow> False
          | (Inr u, s0) \<Rightarrow>
              (case run_segments_of E before s0 of
                 (Inl e1, s1) \<Rightarrow> False
               | (Inr u, s1) \<Rightarrow> run_segment E d s1 = (Inl e, s2))))"

text \<open>The case \<open>abort_case\<close> when \<open>abort()\<close> has raised in TEST.\<close>

definition abort_state :: testcase where
  "abort_state =
     (enter_stage ''TEST'' (enter_stage ''SETUP'' abort_case))
       \<lparr>failures := [(''FAILED ASSERTION'', PStr ''abort called'', [])],
        case_output := case_output (enter_stage ''TEST'' (enter_stage ''SETUP'' abort_case))
                        @ ''# FAILED ASSERTION: abort called'' @ [CHR 0x0A]\<rparr>"

text \<open>The case \<open>interrupted_test_case\<close> when the process of its TEST stage is interrupted.\<close>

definition interrupted_state :: testcase where
  "interrupted_state =
     (enter_stage ''TEST'' (enter_stage ''SETUP'' interrupted_test_case))
       \<lparr>case_output := case_output (enter_stage ''TEST'' (enter_stage ''SETUP'' interrupted_test_case))
                        @ [CHR 0x0A] @ ''# Calling: sleep 60'' @ [CHR 0x0A]\<rparr>"

section \<open>The summary, said directly\<close>

text \<open>
  The lines the summary logs for a list of records, up to the first record whose message
  cannot be formatted, and the exception that formatting raised there.
\<close>

fun log_records ::
  "world \<Rightarrow> string \<Rightarrow> (string \<times> pyval \<times> pyval list) list \<Rightarrow> (level \<times> string) list \<times> exn option" where
  "log_records E mid [] = ([], None)"
| "log_records E mid (r # rs) =
     (case format_string E (fst (snd r)) (snd (snd r)) of
        Inl e \<Rightarrow> ([], Some e)
      | Inr t \<Rightarrow> (case log_records E mid rs of (ls, x) \<Rightarrow> ((INFO, ''    '' @ fst r @ mid @ t) # ls, x)))"

text \<open>FAILED if there are failures, else ERRORED if there are errors, else PASSED.\<close>

definition summary_line :: "testcase \<Rightarrow> string" where
  "summary_line s =
     log_entry_prefix s @
       (if failures s \<noteq> [] then '' FAILED --------------------''
        else if errors s \<noteq> [] then '' ERRORED --------------------''
        else '' PASSED ------------------------------'')"

definition summary_records :: "world \<Rightarrow> testcase \<Rightarrow> (level \<times> string) list \<times> exn option" where
  "summary_records E s =
     (if failures s \<noteq> [] then log_records E '': '' (failures s)
      else if errors s \<noteq> [] then log_records E '': (check state: clean-up did not finish) '' (errors s)
      else ([], None))"

text \<open>An operation that at most adds to the list of failures.\<close>

definition keeps_failures :: "'a act \<Rightarrow> bool" where
  "keeps_failures m = (\<forall>s. prefix (failures s) (failures (snd (m s))))"

section \<open>Properties\<close>

subsection \<open>Formatting messages\<close>

lemma interpolate_symbols_plain: "CHR ''{'' \<notin> set m \<Longrightarrow> interpolate_symbols m r = Inr m"
  by (induction m) auto

text \<open>
  C6, as the code has it. After the named symbols are interpolated, a message with fewer
  \<open>{}\<close> placeholders than positional arguments gets \<open>": "\<close> and one \<open>"{} "\<close> for each
  missing placeholder, and the result goes to \<open>str.format\<close>; a message with at least as
  many placeholders is formatted as it is. The template \<open>{}-{}\<close> with one argument has
  more placeholders than arguments: nothing is appended and formatting raises
  \<open>IndexError\<close>.
\<close>

theorem format_string_padding:
  "(interpolate_symbols m (get_symbol E) = Inr m1 \<and> args \<noteq> [] \<longrightarrow>
      format_string E (PStr m) args =
        (if count_placeholders m1 < length args
         then py_format E (m1 @ '': '' @ concat (replicate (length args - count_placeholders m1) ''{} '')) args
         else py_format E m1 args))
   \<and> format_string E (PStr ''{}-{}'') [a] = Inl IndexError"
proof
  show "interpolate_symbols m (get_symbol E) = Inr m1 \<and> args \<noteq> [] \<longrightarrow>
      format_string E (PStr m) args =
        (if count_placeholders m1 < length args
         then py_format E (m1 @ '': '' @ concat (replicate (length args - count_placeholders m1) ''{} '')) args
         else py_format E m1 args)"
    by (auto simp: format_string_def Let_def nat_diff_distrib' of_nat_diff)
  show "format_string E (PStr ''{}-{}'') [a] = Inl IndexError"
    by (simp add: format_string_def py_format_def symbol_at_def)
qed

theorem format_string_padding_witness:
  "interpolate_symbols ''hello {name}'' (get_symbol demo_world) = Inr ''hello world''
   \<and> [PStr ''x''] \<noteq> []
   \<and> format_string demo_world (PStr ''hello {name}'') [PStr ''x''] = Inr ''hello world: x ''"
proof -
  have h: "interpolate_symbols ''hello {name}'' (get_symbol demo_world) = Inr ''hello world''"
    by (simp add: symbol_at_def demo_world_def)
  have "format_string demo_world (PStr ''hello {name}'') [PStr ''x'']
          = py_format demo_world (''hello world'' @ '': '' @ concat (replicate (1 - 0) ''{} '')) [PStr ''x'']"
    using format_string_padding [of "''hello {name}''" demo_world "''hello world''" "[PStr ''x'']" PNone] h
    by simp
  also have "\<dots> = Inr ''hello world: x ''"
    by (simp add: py_format_def py_str_def)
  finally show ?thesis using h by simp
qed

theorem format_string_two_placeholders_one_argument:
  "format_string demo_world (PStr ''{}-{}'') [PStr ''a''] = Inl IndexError"
  by (simp add: format_string_def py_format_def symbol_at_def)

subsection \<open>The state of the last call\<close>

lemmas act_defs = ok_def raise_def lift_def and_then_def seq_def modify_def reading_def

lemma after_echo_last_call: "last_call_output after_echo = ''ok'' \<and> last_return_code after_echo = 0"
  by (simp add: after_echo_def call_allow_error_def call_external_def print_out_def act_defs demo_world_def
      new_testcase_def format_string_def interpolate_symbols_plain py_str_def)

text \<open>
  C4, as the code has it. \<open>_call_external\<close> resets the last exit code and the last output
  before it runs the command: when it raises (the transcript line cannot be formatted,
  the command cannot be launched, the output cannot be decoded) they are \<open>0\<close> and the
  empty string, and when it returns they are those of this call. \<open>call_allow_error\<close>
  resolves the target first: when the resolution fails it raises \<open>CallError\<close> without
  reaching \<open>_call_external\<close>, and the state of the case, with the exit code and output of
  the previous call, is unchanged.
\<close>

theorem last_call_state:
  "(call_external E cmd chdir s = (r, s') \<longrightarrow>
      (case r of
         Inl e \<Rightarrow> last_return_code s' = 0 \<and> last_call_output s' = []
       | Inr (rc, out) \<Rightarrow> last_return_code s' = rc \<and> last_call_output s' = out))
   \<and> (get_call E args kwargs = Inl e \<and> is_Exception e \<longrightarrow>
        call_allow_error E args kwargs s0 =
          (Inl (CallError (''could not resolve call: '' @ exc_str E e)), s0))"
proof
  show "call_external E cmd chdir s = (r, s') \<longrightarrow>
      (case r of
         Inl e \<Rightarrow> last_return_code s' = 0 \<and> last_call_output s' = []
       | Inr (rc, out) \<Rightarrow> last_return_code s' = rc \<and> last_call_output s' = out)"
    by (auto simp: call_external_def print_out_def act_defs
        split: sum.splits proc.splits option.splits if_splits)
  show "get_call E args kwargs = Inl e \<and> is_Exception e \<longrightarrow>
        call_allow_error E args kwargs s0 =
          (Inl (CallError (''could not resolve call: '' @ exc_str E e)), s0)"
    by (simp add: call_allow_error_def act_defs)
qed

theorem last_call_state_witness:
  "fst (call_external demo_world ''sleep 60'' None after_echo) = Inl KeyboardInterrupt
   \<and> last_return_code (snd (call_external demo_world ''sleep 60'' None after_echo)) = 0
   \<and> last_call_output (snd (call_external demo_world ''sleep 60'' None after_echo)) = []
   \<and> get_call demo_world [PStr ''missing''] [] = Inl (OtherError ''unknown target'')
   \<and> is_Exception (OtherError ''unknown target'')
   \<and> call_allow_error demo_world [PStr ''missing''] [] after_echo =
        (Inl (CallError ''could not resolve call: unknown target''), after_echo)"
proof -
  have r: "fst (call_external demo_world ''sleep 60'' None after_echo) = Inl KeyboardInterrupt"
    by (simp add: call_external_def print_out_def act_defs demo_world_def
        format_string_def interpolate_symbols_plain py_str_def)
  have g: "get_call demo_world [PStr ''missing''] [] = Inl (OtherError ''unknown target'')"
    by (simp add: demo_world_def)
  have x: "is_Exception (OtherError ''unknown target'')"
    by (simp add: is_Exception_def)
  have s: "exc_str demo_world (OtherError ''unknown target'') = ''unknown target''"
    by (simp add: demo_world_def)
  have p: "call_external demo_world ''sleep 60'' None after_echo =
      (fst (call_external demo_world ''sleep 60'' None after_echo),
       snd (call_external demo_world ''sleep 60'' None after_echo))"
    by simp
  note t = last_call_state [of demo_world "''sleep 60''" None after_echo
        "fst (call_external demo_world ''sleep 60'' None after_echo)"
        "snd (call_external demo_world ''sleep 60'' None after_echo)"
        "[PStr ''missing'']" "[]" "OtherError ''unknown target''" after_echo]
  have a: "case fst (call_external demo_world ''sleep 60'' None after_echo) of
         Inl e \<Rightarrow> last_return_code (snd (call_external demo_world ''sleep 60'' None after_echo)) = 0
                  \<and> last_call_output (snd (call_external demo_world ''sleep 60'' None after_echo)) = []
       | Inr (rc, out) \<Rightarrow> last_return_code (snd (call_external demo_world ''sleep 60'' None after_echo)) = rc
                  \<and> last_call_output (snd (call_external demo_world ''sleep 60'' None after_echo)) = out"
    using t p by blast
  have b: "call_allow_error demo_world [PStr ''missing''] [] after_echo =
        (Inl (CallError ''could not resolve call: unknown target''), after_echo)"
    using t g x s by simp
  show ?thesis
    using a b r g x by simp
qed

theorem failed_resolution_keeps_last_call:
  "fst (call_allow_error demo_world [PStr ''missing''] [] after_echo) =
     Inl (CallError ''could not resolve call: unknown target'')
   \<and> last_return_code (snd (call_allow_error demo_world [PStr ''missing''] [] after_echo)) = 0
   \<and> last_call_output (snd (call_allow_error demo_world [PStr ''missing''] [] after_echo)) = ''ok''"
  by (simp add: call_allow_error_def act_defs demo_world_def is_Exception_def after_echo_last_call)

subsection \<open>One directive per entry\<close>

text \<open>
  C5. An entry with two or more keys makes \<open>run_segment\<close> raise before it looks at any
  directive, and the case is unchanged; what it raises is \<open>TypeError\<close>, from
  \<open>raise ConfigError\<close> without the message the class requires, not \<open>ConfigError\<close>.
\<close>

theorem run_segment_several_directives:
  "run_segment E (PDict ((k1, v1) # (k2, v2) # others)) s = (Inl TypeError, s)"
  by (simp add: run_segment_def act_defs)

subsection \<open>Variables that are not bound\<close>

lemma get_variable_unbound:
  "local_symbols s (PStr name) = None \<Longrightarrow>
   get_variable_or_literal E (PDict [(''variable'', PStr name)]) s = (Inl (KeyError (PStr name)), s)"
  by (simp add: get_variable_or_literal_def get_symbol_value_def act_defs)

text \<open>
  C10. For a name the symbol table does not bind, resolving the entry
  \<open>{"variable": name}\<close> raises \<open>KeyError\<close>, not \<open>ConfigError\<close>; a directive whose
  arguments hold the entry (here \<open>assert_contains\<close>) raises it out of \<open>run_segment\<close> and
  leaves the case as it was; and the handlers of \<open>run\<close> record it as an Error of the stage
  under the status \<open>UNHANDLED EXCEPTION\<close>.
\<close>

theorem unbound_variable_key_error:
  assumes "local_symbols s (PStr name) = None"
  shows "get_variable_or_literal E (PDict [(''variable'', PStr name)]) s = (Inl (KeyError (PStr name)), s)
    \<and> run_segment E (PDict [(''assert_contains'', PList [PDict [(''variable'', PStr name)]])]) s
        = (Inl (KeyError (PStr name)), s)
    \<and> errors (snd (handle_main E stage_name (KeyError (PStr name)) s)) =
        errors s @ [(''UNHANDLED EXCEPTION in stage '' @ stage_name @ '' '',
                     PStr (exc_repr E (KeyError (PStr name)) @ [CHR 0x0A] @ format_tb E (KeyError (PStr name))), [])]
    \<and> errors (snd (handle_teardown E (KeyError (PStr name)) s)) =
        errors s @ [(''UNHANDLED EXCEPTION in stage TEARDOWN'',
                     PStr (exc_repr E (KeyError (PStr name)) @ [CHR 0x0A] @ format_tb E (KeyError (PStr name))), [])]"
proof (intro conjI)
  show "get_variable_or_literal E (PDict [(''variable'', PStr name)]) s = (Inl (KeyError (PStr name)), s)"
    using assms by (rule get_variable_unbound)
  show "run_segment E (PDict [(''assert_contains'', PList [PDict [(''variable'', PStr name)]])]) s
        = (Inl (KeyError (PStr name)), s)"
    using assms
    by (simp add: run_segment_def builtins_def builtins_table_def adapt_def params_for_contains_def
        string_and_params_def get_yaml_values_def get_variable_unbound act_defs)
  show "errors (snd (handle_main E stage_name (KeyError (PStr name)) s)) =
        errors s @ [(''UNHANDLED EXCEPTION in stage '' @ stage_name @ '' '',
                     PStr (exc_repr E (KeyError (PStr name)) @ [CHR 0x0A] @ format_tb E (KeyError (PStr name))), [])]"
    by (simp add: handle_main_def is_Exception_def record_error_def print_out_def act_defs Let_def
        split: sum.splits)
  show "errors (snd (handle_teardown E (KeyError (PStr name)) s)) =
        errors s @ [(''UNHANDLED EXCEPTION in stage TEARDOWN'',
                     PStr (exc_repr E (KeyError (PStr name)) @ [CHR 0x0A] @ format_tb E (KeyError (PStr name))), [])]"
    by (simp add: handle_teardown_def is_Exception_def record_error_def print_out_def act_defs Let_def
        split: sum.splits)
qed

theorem unbound_variable_key_error_witness:
  "local_symbols unbound_case (PStr ''nope'') = None
   \<and> run_segment demo_world (PDict [(''assert_contains'', PList [PDict [(''variable'', PStr ''nope'')]])]) unbound_case
       = (Inl (KeyError (PStr ''nope'')), unbound_case)
   \<and> errors (snd (handle_main demo_world ''TEST'' (KeyError (PStr ''nope'')) unbound_case)) =
       [(''UNHANDLED EXCEPTION in stage TEST '', PStr (''KeyError('nope')'' @ [CHR 0x0A]), [])]"
proof -
  have h: "local_symbols unbound_case (PStr ''nope'') = None"
    by (simp add: unbound_case_def new_testcase_def builtins_table_def)
  have e: "errors unbound_case = []"
    by (simp add: unbound_case_def new_testcase_def)
  have r: "exc_repr demo_world (KeyError (PStr ''nope'')) = ''KeyError('nope')''"
    by (simp add: demo_world_def repr_str_def repr_char_def printable_def Let_def)
  have t: "format_tb demo_world (KeyError (PStr ''nope'')) = []"
    by (simp add: demo_world_def)
  show ?thesis
    using unbound_variable_key_error [OF h, of demo_world "''TEST''"] h e r t by simp
qed

subsection \<open>Failures are only added\<close>

lemma kf_ok: "keeps_failures (ok a)" by (simp add: keeps_failures_def ok_def)
lemma kf_raise: "keeps_failures (raise e)" by (simp add: keeps_failures_def raise_def)
lemma kf_lift: "keeps_failures (lift r)" by (simp add: keeps_failures_def lift_def)
lemma kf_modify: "(\<And>s. prefix (failures s) (failures (f s))) \<Longrightarrow> keeps_failures (modify f)"
  by (simp add: keeps_failures_def modify_def)
lemma kf_and_then: "keeps_failures m \<Longrightarrow> (\<And>a. keeps_failures (f a)) \<Longrightarrow> keeps_failures (and_then m f)"
  unfolding keeps_failures_def and_then_def
proof
  fix s
  assume m: "\<forall>s. prefix (failures s) (failures (snd (m s)))" and f: "\<And>a. \<forall>s. prefix (failures s) (failures (snd (f a s)))"
  obtain r s' where ms: "m s = (r, s')" by (cases "m s")
  have p: "prefix (failures s) (failures s')" using m ms by (metis snd_conv)
  show "prefix (failures s) (failures (snd (case m s of (Inl e, s') \<Rightarrow> (Inl e, s') | (Inr a, s') \<Rightarrow> f a s')))"
  proof (cases r)
    case (Inl e) then show ?thesis using ms p by simp
  next
    case (Inr a)
    then show ?thesis using ms p f [of a] by (auto intro: prefix_order.trans)
  qed
qed
lemma kf_seq: "keeps_failures m \<Longrightarrow> keeps_failures k \<Longrightarrow> keeps_failures (seq m k)"
  by (simp add: seq_def kf_and_then)
lemma kf_reading: "(\<And>s. keeps_failures (f s)) \<Longrightarrow> keeps_failures (reading f)"
  by (simp add: keeps_failures_def reading_def)
lemma kf_for_each: "(\<And>x. keeps_failures (f x)) \<Longrightarrow> keeps_failures (for_each f xs)"
  by (induction xs) (auto intro: kf_ok kf_seq)
lemma kf_collect: "(\<And>x. keeps_failures (f x)) \<Longrightarrow> keeps_failures (collect f xs)"
  by (induction xs) (auto intro!: kf_ok kf_and_then)

lemmas kf_intros = kf_ok kf_raise kf_lift kf_and_then kf_seq kf_reading kf_for_each kf_collect

lemma kf_record_failure: "keeps_failures (record_failure st m a)"
  by (simp add: record_failure_def kf_modify)
lemma kf_record_error: "keeps_failures (record_error st m a)"
  by (simp add: record_error_def kf_modify)
lemma kf_print_out: "keeps_failures (print_out E m a)"
  by (auto simp: print_out_def intro!: kf_intros kf_modify)
lemma kf_set_symbol: "keeps_failures (set_symbol k v)"
  by (auto simp: set_symbol_def intro!: kf_intros kf_modify)
lemma kf_get_symbol_value: "keeps_failures (get_symbol_value k)"
  by (auto simp: get_symbol_value_def intro!: kf_intros split: option.splits)
lemma kf_log_raise: "keeps_failures (log_raise l x m)"
  by (auto simp: log_raise_def intro!: kf_intros kf_modify)
lemma kf_info: "keeps_failures (info l)"
  by (auto simp: info_def intro!: kf_intros kf_modify)
lemma kf_expect: "keeps_failures (expect E c m a)"
  by (auto simp: expect_def intro!: kf_intros kf_record_failure kf_print_out)
lemma kf_assert_that: "keeps_failures (assert_that E c m a)"
  by (auto simp: assert_that_def intro!: kf_intros kf_record_failure kf_print_out split: pyval.splits)
lemma kf_call_external: "keeps_failures (call_external E c d)"
  by (auto simp: call_external_def intro!: kf_intros kf_modify kf_print_out split: proc.splits option.splits)
lemma kf_call_allow_error: "keeps_failures (call_allow_error E a k)"
  by (auto simp: call_allow_error_def intro!: kf_intros kf_call_external split: sum.splits)
lemma kf_shell: "keeps_failures (shell E c a)"
  by (auto simp: shell_def intro!: kf_intros kf_call_external split: pyval.splits)
lemma kf_call_no_error: "keeps_failures (call_no_error E a k)"
  by (auto simp: call_no_error_def intro!: kf_intros kf_call_allow_error kf_assert_that)
lemma kf_last_output_contains: "keeps_failures (last_output_contains v k)"
  by (auto simp: last_output_contains_def Let_def intro!: kf_intros split: pyval.splits)
lemma kf_check_several: "(\<And>v. keeps_failures (c v)) \<Longrightarrow> keeps_failures (check_several E ch w c m vs)"
  by (auto simp: check_several_def Let_def intro!: kf_intros kf_assert_that kf_expect split: severity.splits)
lemma kf_contain_checker: "keeps_failures (contain_checker E ch w c vs k)"
  by (auto simp: contain_checker_def Let_def intro!: kf_intros kf_check_several kf_last_output_contains)
lemma kf_assert_success: "keeps_failures (assert_success E a)"
  by (auto simp: assert_success_def Let_def intro!: kf_intros kf_assert_that)
lemma kf_assert_failure: "keeps_failures (assert_failure E a)"
  by (auto simp: assert_failure_def Let_def intro!: kf_intros kf_assert_that)
lemma kf_extract_match: "keeps_failures (extract_match E p v g)"
  by (auto simp: extract_match_def intro!: kf_intros kf_set_symbol split: pyval.splits sum.splits option.splits list.splits)


lemma kf_get_variable_or_literal: "keeps_failures (get_variable_or_literal E m)"
  by (auto simp: get_variable_or_literal_def intro!: kf_intros kf_log_raise kf_get_symbol_value split: list.splits)
lemma kf_get_yaml_values: "keeps_failures (get_yaml_values E l)"
  by (auto simp: get_yaml_values_def intro!: kf_intros kf_get_variable_or_literal)
lemma kf_lookup_values: "keeps_failures (lookup_values E l)"
  by (auto simp: lookup_values_def intro!: kf_intros)
lemma kf_yaml_args_string: "keeps_failures (yaml_args_string E p)"
  by (auto simp: yaml_args_string_def intro!: kf_intros kf_lookup_values)
lemma kf_params_for_set: "keeps_failures (params_for_set p)"
  by (auto simp: params_for_set_def intro!: kf_intros kf_log_raise)
lemma kf_yaml_get_env: "keeps_failures (yaml_get_env E p)"
  by (auto simp: yaml_get_env_def intro!: kf_intros kf_params_for_set kf_set_symbol)
lemma kf_yaml_get_uuid: "keeps_failures (yaml_get_uuid E p)"
  by (auto simp: yaml_get_uuid_def intro!: kf_intros kf_set_symbol)
lemma kf_yaml_extract_match: "keeps_failures (yaml_extract_match p)"
  by (auto simp: yaml_extract_match_def Let_def intro!: kf_intros split: pyval.splits)
lemma kf_params_loop: "keeps_failures (params_loop E k c items a p)"
  by (induction E k c items a p rule: params_loop.induct)
     (auto intro!: kf_intros kf_log_raise kf_get_variable_or_literal)
lemma kf_params_for_call: "keeps_failures (params_for_call E p)"
  by (auto simp: params_for_call_def Let_def intro!: kf_intros kf_log_raise kf_params_loop)
lemma kf_string_and_params: "keeps_failures (string_and_params E l p st)"
  by (auto simp: string_and_params_def intro!: kf_intros kf_log_raise kf_get_yaml_values)
lemma kf_params_for_contains: "keeps_failures (params_for_contains E p)"
  by (auto simp: params_for_contains_def intro!: kf_intros kf_string_and_params)
lemma kf_adapt: "keeps_failures (adapt E a seg)"
  by (cases a) (auto simp: adapt_def intro!: kf_intros kf_params_for_call kf_yaml_args_string kf_yaml_get_uuid
      kf_yaml_get_env kf_yaml_extract_match kf_params_for_contains)
lemma kf_exec_stmt: "(\<And>g a. keeps_failures (inner g a)) \<Longrightarrow> keeps_failures (exec_stmt inner st)"
  by (auto simp: exec_stmt_def intro!: kf_intros split: stmt.splits option.splits pyval.splits)
lemma kf_execute: "(\<And>b g a. inner = Some b \<Longrightarrow> keeps_failures (b g a)) \<Longrightarrow> keeps_failures (execute E inner c)"
  by (auto simp: execute_def intro!: kf_intros kf_exec_stmt split: option.splits pyval.splits sum.splits)
lemma kf_if: "(c \<Longrightarrow> keeps_failures a) \<Longrightarrow> (\<not> c \<Longrightarrow> keeps_failures b) \<Longrightarrow> keeps_failures (if c then a else b)"
  by simp
lemma kf_invoke_at:
  assumes "\<And>b g a. inner = Some b \<Longrightarrow> keeps_failures (b g a)"
  shows "keeps_failures (invoke_at E inner n a k)"
proof -
  have ex: "keeps_failures (execute E inner c)" for c
    using assms by (rule kf_execute)
  show ?thesis
    unfolding invoke_at_def fail_def abort_def
    by (intro kf_if kf_and_then kf_ok kf_raise kf_lift kf_call_no_error kf_call_allow_error kf_contain_checker
          kf_expect kf_assert_that kf_assert_success kf_assert_failure;
        (auto intro!: kf_intros kf_shell kf_print_out kf_extract_match ex kf_expect kf_assert_that
              split: list.splits)?)
qed
lemma kf_invoke: "keeps_failures (invoke E d n a k)"
  by (induction d arbitrary: n a k) (auto intro!: kf_invoke_at)
lemma kf_call_value: "keeps_failures (call_value E v a k)"
  by (auto simp: call_value_def intro!: kf_intros kf_invoke split: pyval.splits)
lemma kf_run_segment: "keeps_failures (run_segment E seg)"
  by (auto simp: run_segment_def intro!: kf_intros kf_adapt kf_call_value split: list.splits option.splits)
lemma kf_run_segments_of: "keeps_failures (run_segments_of E segs)"
  by (auto simp: run_segments_of_def intro!: kf_intros kf_run_segment)
lemma kf_run_stage: "keeps_failures (run_stage E n segs)"
  by (auto simp: run_stage_def intro!: kf_intros kf_run_segments_of kf_print_out)
lemma kf_handle_teardown: "keeps_failures (handle_teardown E e)"
  by (auto simp: handle_teardown_def Let_def intro!: kf_intros kf_record_error kf_print_out split: exn.splits)
lemma kf_handle_main: "keeps_failures (handle_main E n e)"
  by (auto simp: handle_main_def Let_def intro!: kf_intros kf_record_error kf_print_out split: exn.splits)
lemma kf_teardown_block: "keeps_failures (teardown_block E)"
  unfolding keeps_failures_def teardown_block_def
proof
  fix s
  obtain r s1 where rs: "run_stage E ''TEARDOWN'' (teardown_spec s) s = (r, s1)"
    by (cases "run_stage E ''TEARDOWN'' (teardown_spec s) s")
  have p: "prefix (failures s) (failures s1)"
    using kf_run_stage [of E "''TEARDOWN''" "teardown_spec s"] rs by (metis keeps_failures_def snd_conv)
  show "prefix (failures s) (failures (snd (case run_stage E ''TEARDOWN'' (teardown_spec s) s of
             (Inl e, s1) \<Rightarrow> handle_teardown E e s1 | (Inr _, s1) \<Rightarrow> (Inr (), s1))))"
  proof (cases r)
    case (Inl e)
    have "prefix (failures s1) (failures (snd (handle_teardown E e s1)))"
      using kf_handle_teardown [of E e] by (simp add: keeps_failures_def)
    then show ?thesis using rs p Inl by (auto intro: prefix_order.trans)
  next
    case (Inr u) then show ?thesis using rs p by simp
  qed
qed
lemma kf_summarize: "keeps_failures (summarize E)"
  by (auto simp: summarize_def intro!: kf_intros kf_info)

lemma stage_heading:
  "CHR ''{'' \<notin> set stage_name \<Longrightarrow>
   print_out E (PStr ([CHR 0x0A] @ ''### Test case '' @ stage_name)) [] s = (Inr (), enter_stage stage_name s)"
  by (simp add: print_out_def format_string_def interpolate_symbols_plain py_str_def enter_stage_def act_defs)

lemma run_stage_enter:
  "CHR ''{'' \<notin> set stage_name \<Longrightarrow>
   run_stage E stage_name spec s = run_segments_of E spec (enter_stage stage_name s)"
  using stage_heading [of stage_name E s] by (simp add: run_stage_def seq_def and_then_def)

lemma for_each_append:
  "for_each f (xs @ ys) s =
     (case for_each f xs s of (Inl e, s1) \<Rightarrow> (Inl e, s1) | (Inr u, s1) \<Rightarrow> for_each f ys s1)"
  by (induction xs arbitrary: s) (auto simp: act_defs split: prod.splits sum.splits)

lemma run_segments_of_stops:
  "run_segments_of E before s0 = (Inr (), s1) \<Longrightarrow> run_segment E d s1 = (Inl e, s2) \<Longrightarrow>
   run_segments_of E (before @ d # after) s0 = (Inl e, s2)"
  by (simp add: run_segments_of_def for_each_append act_defs)

lemma aborts_at_main_block:
  assumes "aborts_at E s stage_name before d after e s2"
  shows "main_block E s = handle_main E stage_name e s2"
  using assms
  by (auto simp: aborts_at_def stage_start_def stage_spec_of_def main_block_def run_stage_enter
      run_segments_of_stops split: prod.splits sum.splits if_splits)

lemma aborts_at_stage:
  "aborts_at E s stage_name before d after e s2 \<Longrightarrow> stage_name = ''SETUP'' \<or> stage_name = ''TEST''"
  by (auto simp: aborts_at_def)

lemma summarize_count:
  "summarize E s = (Inr n, s') \<Longrightarrow> n = length (failures s') + length (errors s')"
  by (auto simp: summarize_def act_defs split: prod.splits sum.splits if_splits)

lemma teardown_keeps: "teardown_block E s = (r, s') \<Longrightarrow> prefix (failures s) (failures s')"
  using kf_teardown_block [of E] by (metis keeps_failures_def snd_conv)

lemma summarize_keeps: "summarize E s = (r, s') \<Longrightarrow> prefix (failures s) (failures s')"
  using kf_summarize [of E] by (metis keeps_failures_def snd_conv)

subsection \<open>Evaluating a run\<close>

lemma invoke_code:
  "0 < depth \<Longrightarrow>
   invoke E depth ''code'' [c] [] = execute E (Some (\<lambda>name args. invoke E (depth - 1) name args [])) c"
  by (cases depth) (simp_all add: invoke_at_def)

lemma invoke_other:
  "name \<noteq> ''code'' \<Longrightarrow> invoke E depth name args kwargs = invoke_at E None name args kwargs"
  by (cases depth) (simp_all add: invoke_at_def)

lemmas run_simps = run_segments_of_def run_segment_def builtins_def builtins_table_def adapt_def
  call_value_def invoke_code invoke_other invoke_at_def execute_def exec_stmt_def
  yaml_args_string_def lookup_values_def shell_def call_external_def
  abort_def assert_that_def assert_success_def record_failure_def record_error_def print_out_def
  format_string_def interpolate_symbols_plain py_str_def enter_stage_def is_Exception_def
  new_testcase_def demo_world_def act_defs Let_def

lemmas whole_run_simps = run_def main_block_def teardown_block_def run_stage_enter
  handle_main_def handle_teardown_def summarize_def info_def log_entry_prefix_def get_output_def
  reindent_def int_str_def run_simps

subsection \<open>A failed assertion\<close>

text \<open>
  C1, as the code has it. When a directive of SETUP or TEST ends in \<open>TestFailure\<close> with a
  failure on record, which is how \<open>assert_that\<close> leaves a false condition, nothing more
  of SETUP and TEST runs: the TEARDOWN block runs once, on the case as the assertion left
  it, and the summary follows. \<open>run\<close> then returns at least 1, unless an exception
  leaves the TEARDOWN block (a keyboard interrupt there is raised again) or the summary.
\<close>

theorem failed_assertion_aborts_stage:
  assumes "aborts_at E s stage_name before d after TestFailure s2" and "failures s2 \<noteq> []"
  shows "run E s = (case teardown_block E s2 of
                      (Inl e, s3) \<Rightarrow> (Inl e, s3)
                    | (Inr u, s3) \<Rightarrow> summarize E s3)
       \<and> (\<forall>n s'. run E s = (Inr n, s') \<longrightarrow> 1 \<le> n)"
proof -
  have m: "main_block E s = (Inr (), s2)"
    using aborts_at_main_block [OF assms(1)] by (simp add: handle_main_def ok_def)
  have eq: "run E s = (case teardown_block E s2 of
                      (Inl e, s3) \<Rightarrow> (Inl e, s3)
                    | (Inr u, s3) \<Rightarrow> summarize E s3)"
    by (simp add: run_def m split: prod.splits sum.splits)
  have "1 \<le> n" if r: "run E s = (Inr n, s')" for n s'
  proof -
    obtain r3 s3 where t: "teardown_block E s2 = (r3, s3)" by (cases "teardown_block E s2")
    from r eq t have su: "summarize E s3 = (Inr n, s')"
      by (cases r3) auto
    have "prefix (failures s2) (failures s3)" using t by (rule teardown_keeps)
    moreover have "prefix (failures s3) (failures s')" using su by (rule summarize_keeps)
    ultimately have "prefix (failures s2) (failures s')" by (rule prefix_order.trans)
    then have "failures s' \<noteq> []" using assms(2) by (auto simp: prefix_def)
    moreover have "n = length (failures s') + length (errors s')" using su by (rule summarize_count)
    ultimately show ?thesis by (cases "failures s'") auto
  qed
  with eq show ?thesis by blast
qed

lemma assert_that_false:
  "\<not> truthy condition \<Longrightarrow>
   (\<exists>e. fst (assert_that E condition message args s) = Inl e)
   \<and> failures (snd (assert_that E condition message args s)) =
       failures s @ [(''FAILED ASSERTION'', message, args)]"
  by (auto simp: assert_that_def record_failure_def print_out_def act_defs split: pyval.splits sum.splits)

theorem failed_assertion_aborts_stage_witness:
  "aborts_at demo_world abort_case ''TEST'' [] (PDict [(''code'', PStr ''abort()'')])
     [PDict [(''log'', PList [PStr ''not reached''])]] TestFailure abort_state
   \<and> failures abort_state \<noteq> []
   \<and> run demo_world abort_case = (case teardown_block demo_world abort_state of
                      (Inl e, s3) \<Rightarrow> (Inl e, s3)
                    | (Inr u, s3) \<Rightarrow> summarize demo_world s3)
   \<and> fst (run demo_world abort_case) = Inr 1"
proof -
  have a: "aborts_at demo_world abort_case ''TEST'' [] (PDict [(''code'', PStr ''abort()'')])
     [PDict [(''log'', PList [PStr ''not reached''])]] TestFailure abort_state"
    by (simp add: aborts_at_def stage_start_def stage_spec_of_def abort_case_def abort_state_def run_simps)
  have f: "failures abort_state \<noteq> []"
    by (simp add: abort_state_def)
  have v: "fst (run demo_world abort_case) = Inr 1"
    by (simp add: abort_case_def whole_run_simps)
  show ?thesis
    using failed_assertion_aborts_stage [OF a f] a f v by simp
qed

theorem failed_assertion_interrupted_teardown:
  "failures (snd (run demo_world abort_then_interrupt_case)) = [(''FAILED ASSERTION'', PStr ''abort called'', [])]
   \<and> fst (run demo_world abort_then_interrupt_case) = Inl KeyboardInterrupt"
  by (simp add: abort_then_interrupt_case_def whole_run_simps)

subsection \<open>A keyboard interrupt\<close>

text \<open>
  C3, as the code has it. A keyboard interrupt raised by a directive of SETUP or TEST is
  recorded as an Error and written to the transcript; nothing more of SETUP and TEST
  runs, but the TEARDOWN block, being the \<open>finally\<close> clause, still runs, on the case
  with that record. Then \<open>run\<close> raises: the exception that left the TEARDOWN block if
  there is one, the interrupt otherwise. It never returns.
\<close>

theorem interrupt_runs_teardown_then_propagates:
  assumes "aborts_at E s stage_name before d after KeyboardInterrupt s2"
  shows "run E s =
           (case teardown_block E
                   (s2\<lparr>errors := errors s2 @ [(''KEYBOARD INTERRUPT in stage '' @ stage_name @ '' '',
                                                PStr ''keyboard interrupt detected'', [])],
                       case_output := case_output s2 @ ''KEYBOARD INTERRUPT in stage '' @ stage_name @ '' '' @ [CHR 0x0A]\<rparr>) of
              (Inl e, s3) \<Rightarrow> (Inl e, s3)
            | (Inr u, s3) \<Rightarrow> (Inl KeyboardInterrupt, s3))
       \<and> (\<forall>n s'. run E s \<noteq> (Inr n, s'))"
proof -
  have st: "CHR ''{'' \<notin> set (''KEYBOARD INTERRUPT in stage '' @ stage_name @ '' '')"
    using aborts_at_stage [OF assms] by auto
  have m: "main_block E s =
             (Inl KeyboardInterrupt,
              s2\<lparr>errors := errors s2 @ [(''KEYBOARD INTERRUPT in stage '' @ stage_name @ '' '',
                                                PStr ''keyboard interrupt detected'', [])],
                       case_output := case_output s2 @ ''KEYBOARD INTERRUPT in stage '' @ stage_name @ '' '' @ [CHR 0x0A]\<rparr>)"
    using st
    by (simp add: aborts_at_main_block [OF assms] handle_main_def record_error_def print_out_def
        format_string_def interpolate_symbols_plain py_str_def act_defs Let_def del: set_append)
  show ?thesis
    by (auto simp: run_def m split: prod.splits sum.splits)
qed

theorem interrupt_runs_teardown_then_propagates_witness:
  "aborts_at demo_world interrupted_test_case ''TEST'' [] (PDict [(''shell'', PList [PStr ''sleep 60''])]) []
     KeyboardInterrupt interrupted_state
   \<and> fst (run demo_world interrupted_test_case) = Inl KeyboardInterrupt
   \<and> errors (snd (run demo_world interrupted_test_case)) =
       [(''KEYBOARD INTERRUPT in stage TEST '', PStr ''keyboard interrupt detected'', [])]
   \<and> (\<forall>n s'. run demo_world interrupted_test_case \<noteq> (Inr n, s'))"
proof -
  have a: "aborts_at demo_world interrupted_test_case ''TEST'' [] (PDict [(''shell'', PList [PStr ''sleep 60''])]) []
     KeyboardInterrupt interrupted_state"
    by (simp add: aborts_at_def stage_start_def stage_spec_of_def interrupted_test_case_def
        interrupted_state_def run_simps)
  have v: "fst (run demo_world interrupted_test_case) = Inl KeyboardInterrupt
     \<and> errors (snd (run demo_world interrupted_test_case)) =
       [(''KEYBOARD INTERRUPT in stage TEST '', PStr ''keyboard interrupt detected'', [])]"
    by (simp add: interrupted_test_case_def whole_run_simps)
  have n: "\<forall>n s'. run demo_world interrupted_test_case \<noteq> (Inr n, s')"
    using interrupt_runs_teardown_then_propagates [OF a] by (rule conjunct2)
  show ?thesis
    using a v n by blast
qed

theorem teardown_runs_after_interrupt:
  "fst (run demo_world interrupted_setup_case) = Inl KeyboardInterrupt
   \<and> case_output (snd (run demo_world interrupted_setup_case)) =
       [CHR 0x0A] @ ''### Test case SETUP'' @ [CHR 0x0A]
       @ [CHR 0x0A] @ ''# Calling: sleep 60'' @ [CHR 0x0A]
       @ ''KEYBOARD INTERRUPT in stage SETUP '' @ [CHR 0x0A]
       @ [CHR 0x0A] @ ''### Test case TEARDOWN'' @ [CHR 0x0A]
       @ ''cleanup'' @ [CHR 0x0A]"
  by (simp add: interrupted_setup_case_def whole_run_simps)

subsection \<open>The summary\<close>

lemma seq_apply: "seq m k s = (case m s of (Inl e, s') \<Rightarrow> (Inl e, s') | (Inr u, s') \<Rightarrow> k s')"
  by (simp add: seq_def and_then_def)

lemma reading_apply: "reading f s = f s s"
  by (simp add: reading_def)

lemma info_apply: "info l s = (Inr (), s\<lparr>logged := logged s @ [(INFO, l)]\<rparr>)"
  by (simp add: info_def modify_def)

lemma for_each_records:
  assumes step: "\<And>r s. f r s =
     (case format_string E (fst (snd r)) (snd (snd r)) of
        Inl e \<Rightarrow> (Inl e, s)
      | Inr t \<Rightarrow> (Inr (), s\<lparr>logged := logged s @ [(INFO, ''    '' @ fst r @ mid @ t)]\<rparr>))"
  shows "for_each f rs s =
     (case log_records E mid rs of
        (ls, None) \<Rightarrow> (Inr (), s\<lparr>logged := logged s @ ls\<rparr>)
      | (ls, Some e) \<Rightarrow> (Inl e, s\<lparr>logged := logged s @ ls\<rparr>))"
proof (induction rs arbitrary: s)
  case Nil
  then show ?case by (simp add: ok_def)
next
  case (Cons r rs)
  have u: "for_each f (r # rs) s =
      (case f r s of (Inl e, s') \<Rightarrow> (Inl e, s') | (Inr u, s') \<Rightarrow> for_each f rs s')"
    by (simp add: seq_apply)
  show ?case
  proof (cases "format_string E (fst (snd r)) (snd (snd r))")
    case (Inl e)
    have "f r s = (Inl e, s)" using step [of r s] Inl by simp
    then show ?thesis using u Inl by simp
  next
    case (Inr t)
    have "f r s = (Inr (), s\<lparr>logged := logged s @ [(INFO, ''    '' @ fst r @ mid @ t)]\<rparr>)"
      using step [of r s] Inr by simp
    then show ?thesis
      using u Inr Cons [of "s\<lparr>logged := logged s @ [(INFO, ''    '' @ fst r @ mid @ t)]\<rparr>"]
      by (simp split: prod.splits option.splits)
  qed
qed

lemma summarize_eq:
  "summarize E s =
     (case summary_records E s of
        (ls, Some e) \<Rightarrow> (Inl e, s\<lparr>logged := logged s @ (INFO, summary_line s) # ls\<rparr>)
      | (ls, None) \<Rightarrow>
          (Inr (length (failures s) + length (errors s)),
           s\<lparr>logged := logged s @ (INFO, summary_line s) # ls
                  @ [(INFO, ''    Output:''), (INFO, get_output s 4 ''| '' @ [CHR 0x0A])]\<rparr>))"
proof -
  have f: "for_each (\<lambda>failure. and_then (lift (format_string E (fst (snd failure)) (snd (snd failure))))
                        (\<lambda>t. info (''    '' @ fst failure @ '': '' @ t))) rs s1 =
     (case log_records E '': '' rs of
        (ls, None) \<Rightarrow> (Inr (), s1\<lparr>logged := logged s1 @ ls\<rparr>)
      | (ls, Some e) \<Rightarrow> (Inl e, s1\<lparr>logged := logged s1 @ ls\<rparr>))" for rs s1
    by (rule for_each_records) (simp add: and_then_def lift_def info_apply split: sum.splits)
  have e: "for_each (\<lambda>error. and_then (lift (format_string E (fst (snd error)) (snd (snd error))))
                        (\<lambda>t. info (''    '' @ fst error @ '': (check state: clean-up did not finish) '' @ t))) rs s1 =
     (case log_records E '': (check state: clean-up did not finish) '' rs of
        (ls, None) \<Rightarrow> (Inr (), s1\<lparr>logged := logged s1 @ ls\<rparr>)
      | (ls, Some e) \<Rightarrow> (Inl e, s1\<lparr>logged := logged s1 @ ls\<rparr>))" for rs s1
    by (rule for_each_records) (simp add: and_then_def lift_def info_apply split: sum.splits)
  have i: "(if c then m else k) s1 = (if c then m s1 else k s1)" for c and m k :: "unit act" and s1
    by simp
  show ?thesis
    apply (simp only: summarize_def reading_apply seq_apply i f e info_apply)
    apply (simp add: summary_records_def summary_line_def get_output_def ok_def
        split: prod.splits option.splits)
    done
qed

lemma run_after_stages:
  "main_block E s = (Inr (), s1) \<Longrightarrow> teardown_block E s1 = (Inr (), s2) \<Longrightarrow> run E s = summarize E s2"
  by (simp add: run_def)

lemma summary_line_kind:
  "summary_line s = log_entry_prefix s @ '' FAILED --------------------'' \<longleftrightarrow> failures s \<noteq> []"
  "summary_line s = log_entry_prefix s @ '' ERRORED --------------------'' \<longleftrightarrow> failures s = [] \<and> errors s \<noteq> []"
  "summary_line s = log_entry_prefix s @ '' PASSED ------------------------------'' \<longleftrightarrow> failures s = [] \<and> errors s = []"
  by (auto simp: summary_line_def)

lemma empty_stages_pass:
  "fst (run E (new_testcase i l [] [] [])) = Inr 0
   \<and> logged (snd (run E (new_testcase i l [] [] []))) =
       [(INFO, ''---- Test case '' @ int_str i @ '': \"'' @ l @ ''\" PASSED ------------------------------''),
        (INFO, ''    Output:''),
        (INFO, get_output (snd (run E (new_testcase i l [] [] []))) 4 ''| '' @ [CHR 0x0A])]"
  by (simp add: run_def main_block_def teardown_block_def run_stage_enter run_segments_of_def ok_def
      summarize_eq summary_records_def summary_line_def log_entry_prefix_def get_output_def
      new_testcase_def enter_stage_def)

text \<open>
  C2. Once the stages are done \<open>run\<close> logs the summary line, FAILED if there are failures,
  else ERRORED if there are errors, else PASSED (\<open>summarize_eq\<close>, \<open>summary_line_kind\<close>), and
  a case with empty stages returns 0 and logs PASSED (\<open>empty_stages_pass\<close>). It returns
  the number of failures and errors only if every message it reports can be formatted:
  after a call that exits with code 1, \<open>assert_success: []\<close> records the failure with the
  list \<open>[]\<close> as its message (the default goes to the misspelt \<open>mesage\<close>), \<open>run\<close> logs the
  FAILED line, and formatting that message raises \<open>TypeError\<close> out of \<open>run\<close>: nothing is
  returned for a case with one failure and one error.
\<close>

theorem failed_assert_success_breaks_summary:
  "fst (run demo_world failed_call_case) = Inl TypeError
   \<and> failures (snd (run demo_world failed_call_case)) = [(''FAILED ASSERTION'', PList [], [])]
   \<and> errors (snd (run demo_world failed_call_case)) =
       [(''UNHANDLED EXCEPTION in stage TEST '', PStr (''TypeError()'' @ [CHR 0x0A]), [])]
   \<and> logged (snd (run demo_world failed_call_case)) =
       [(INFO, ''---- Test case 6: \"failed call\" FAILED --------------------'')]"
  by (simp add: failed_call_case_def whole_run_simps char_of_eq_iff)

subsection \<open>The transcript in the log\<close>

text \<open>
  C9, as the code has it. Whenever \<open>run\<close> returns, it has logged the summary line, the
  records under it, and last \<open>Output:\<close> and the whole transcript, indented, whatever the
  failures and errors are;
  and a case whose stages complete with no failure and no error always returns, 0, with
  the PASSED line, \<open>Output:\<close> and the transcript logged.
\<close>

theorem transcript_logged_when_run_returns:
  "(run E s = (Inr n, s') \<longrightarrow>
      (\<exists>earlier records.
         logged s' = earlier @ (INFO, summary_line s') # records
                       @ [(INFO, ''    Output:''), (INFO, get_output s' 4 ''| '' @ [CHR 0x0A])]))
   \<and> (main_block E s = (Inr (), s1) \<and> teardown_block E s1 = (Inr (), s2)
        \<and> failures s2 = [] \<and> errors s2 = [] \<longrightarrow>
        run E s =
          (Inr 0, s2\<lparr>logged := logged s2 @
                      [(INFO, log_entry_prefix s2 @ '' PASSED ------------------------------''),
                       (INFO, ''    Output:''),
                       (INFO, get_output s2 4 ''| '' @ [CHR 0x0A])]\<rparr>))"
proof
  show "run E s = (Inr n, s') \<longrightarrow>
      (\<exists>earlier records.
         logged s' = earlier @ (INFO, summary_line s') # records
                       @ [(INFO, ''    Output:''), (INFO, get_output s' 4 ''| '' @ [CHR 0x0A])])"
  proof
    assume r: "run E s = (Inr n, s')"
    obtain pending sa where m: "main_block E s = (pending, sa)" by (cases "main_block E s")
    obtain r2 sb where t: "teardown_block E sa = (r2, sb)" by (cases "teardown_block E sa")
    from r m t have su: "summarize E sb = (Inr n, s')"
      by (auto simp: run_def split: sum.splits)
    obtain ls x where sr: "summary_records E sb = (ls, x)" by (cases "summary_records E sb")
    from su sr have "s' = sb\<lparr>logged := logged sb @ (INFO, summary_line sb) # ls
                  @ [(INFO, ''    Output:''), (INFO, get_output sb 4 ''| '' @ [CHR 0x0A])]\<rparr>"
      by (cases x) (auto simp: summarize_eq)
    then have "logged s' = logged sb @ (INFO, summary_line s') # ls
                  @ [(INFO, ''    Output:''), (INFO, get_output s' 4 ''| '' @ [CHR 0x0A])]"
      by (simp add: get_output_def summary_line_def log_entry_prefix_def)
    then show "\<exists>earlier records.
         logged s' = earlier @ (INFO, summary_line s') # records
                       @ [(INFO, ''    Output:''), (INFO, get_output s' 4 ''| '' @ [CHR 0x0A])]"
      by blast
  qed
  show "main_block E s = (Inr (), s1) \<and> teardown_block E s1 = (Inr (), s2)
        \<and> failures s2 = [] \<and> errors s2 = [] \<longrightarrow>
        run E s =
          (Inr 0, s2\<lparr>logged := logged s2 @
                      [(INFO, log_entry_prefix s2 @ '' PASSED ------------------------------''),
                       (INFO, ''    Output:''),
                       (INFO, get_output s2 4 ''| '' @ [CHR 0x0A])]\<rparr>)"
    by (auto simp: run_after_stages summarize_eq summary_records_def summary_line_def)
qed

lemma replicate_four: "replicate 4 c = [c, c, c, c]"
  by (simp add: eval_nat_numeral)

theorem transcript_logged_when_run_returns_witness:
  "run demo_world abort_case = (Inr 1, snd (run demo_world abort_case))
   \<and> (\<exists>earlier records.
         logged (snd (run demo_world abort_case)) =
           earlier @ (INFO, summary_line (snd (run demo_world abort_case))) # records
             @ [(INFO, ''    Output:''),
                (INFO, get_output (snd (run demo_world abort_case)) 4 ''| '' @ [CHR 0x0A])])
   \<and> main_block demo_world empty_case = (Inr (), enter_stage ''TEST'' (enter_stage ''SETUP'' empty_case))
   \<and> teardown_block demo_world (enter_stage ''TEST'' (enter_stage ''SETUP'' empty_case)) =
        (Inr (), enter_stage ''TEARDOWN'' (enter_stage ''TEST'' (enter_stage ''SETUP'' empty_case)))
   \<and> failures (enter_stage ''TEARDOWN'' (enter_stage ''TEST'' (enter_stage ''SETUP'' empty_case))) = []
   \<and> errors (enter_stage ''TEARDOWN'' (enter_stage ''TEST'' (enter_stage ''SETUP'' empty_case))) = []
   \<and> fst (run demo_world empty_case) = Inr 0
   \<and> logged (snd (run demo_world empty_case)) =
        [(INFO, ''---- Test case 7: \"empty\" PASSED ------------------------------''),
         (INFO, ''    Output:''),
         (INFO, ''    | '' @ [CHR 0x0A] @ ''    | ### Test case SETUP'' @ [CHR 0x0A]
                @ ''    | '' @ [CHR 0x0A] @ ''    | ### Test case TEST'' @ [CHR 0x0A]
                @ ''    | '' @ [CHR 0x0A] @ ''    | ### Test case TEARDOWN'' @ [CHR 0x0A]
                @ ''    | '' @ [CHR 0x0A])]"
proof -
  let ?s1 = "enter_stage ''TEST'' (enter_stage ''SETUP'' empty_case)"
  let ?s2 = "enter_stage ''TEARDOWN'' ?s1"
  have v: "fst (run demo_world abort_case) = Inr 1"
    by (simp add: abort_case_def whole_run_simps)
  then have r: "run demo_world abort_case = (Inr 1, snd (run demo_world abort_case))"
    by (simp add: prod_eq_iff)
  have m: "main_block demo_world empty_case = (Inr (), ?s1)"
    by (simp add: main_block_def run_stage_enter run_segments_of_def ok_def empty_case_def new_testcase_def
        enter_stage_def)
  have t: "teardown_block demo_world ?s1 = (Inr (), ?s2)"
    by (simp add: teardown_block_def run_stage_enter run_segments_of_def ok_def empty_case_def new_testcase_def
        enter_stage_def)
  have f: "failures ?s2 = []" and e: "errors ?s2 = []"
    by (simp_all add: enter_stage_def empty_case_def new_testcase_def)
  have a: "\<exists>earlier records.
         logged (snd (run demo_world abort_case)) =
           earlier @ (INFO, summary_line (snd (run demo_world abort_case))) # records
             @ [(INFO, ''    Output:''),
                (INFO, get_output (snd (run demo_world abort_case)) 4 ''| '' @ [CHR 0x0A])]"
    using transcript_logged_when_run_returns
      [of demo_world abort_case 1 "snd (run demo_world abort_case)"] r by blast
  note th = transcript_logged_when_run_returns [of demo_world empty_case _ _ ?s1 ?s2]
  have b: "run demo_world empty_case =
          (Inr 0, ?s2\<lparr>logged := logged ?s2 @
                      [(INFO, log_entry_prefix ?s2 @ '' PASSED ------------------------------''),
                       (INFO, ''    Output:''),
                       (INFO, get_output ?s2 4 ''| '' @ [CHR 0x0A])]\<rparr>)"
    using th m t f e by blast
  have c: "fst (run demo_world empty_case) = Inr 0
     \<and> logged (snd (run demo_world empty_case)) =
        [(INFO, ''---- Test case 7: \"empty\" PASSED ------------------------------''),
         (INFO, ''    Output:''),
         (INFO, ''    | '' @ [CHR 0x0A] @ ''    | ### Test case SETUP'' @ [CHR 0x0A]
                @ ''    | '' @ [CHR 0x0A] @ ''    | ### Test case TEST'' @ [CHR 0x0A]
                @ ''    | '' @ [CHR 0x0A] @ ''    | ### Test case TEARDOWN'' @ [CHR 0x0A]
                @ ''    | '' @ [CHR 0x0A])]"
    unfolding b
    by (simp add: log_entry_prefix_def get_output_def reindent_def int_str_def enter_stage_def
        empty_case_def new_testcase_def char_of_eq_iff replicate_four)
  show ?thesis
    using r a m t f e c by blast
qed

theorem interrupted_run_logs_nothing:
  "fst (run demo_world interrupted_test_case) = Inl KeyboardInterrupt
   \<and> logged (snd (run demo_world interrupted_test_case)) = []"
  by (simp add: interrupted_test_case_def whole_run_simps)

subsection \<open>Values in the last output\<close>

text \<open>\<open>is_substr\<close> is the substring relation of Python's \<open>in\<close>.\<close>

lemma is_substr_iff: "is_substr u t \<longleftrightarrow> (\<exists>p q. t = p @ u @ q)"
proof (induction t)
  case Nil
  then show ?case by auto
next
  case (Cons c cs)
  show ?case
  proof
    assume "is_substr u (c # cs)"
    then consider "prefix u (c # cs)" | "is_substr u cs" by auto
    then show "\<exists>p q. c # cs = p @ u @ q"
    proof cases
      case 1
      then obtain q where "c # cs = u @ q" by (auto simp: prefix_def)
      then have "c # cs = [] @ u @ q" by simp
      then show ?thesis by blast
    next
      case 2
      then obtain p q where "cs = p @ u @ q" using Cons by blast
      then have "c # cs = (c # p) @ u @ q" by simp
      then show ?thesis by blast
    qed
  next
    assume "\<exists>p q. c # cs = p @ u @ q"
    then obtain p q where e: "c # cs = p @ u @ q" by blast
    show "is_substr u (c # cs)"
    proof (cases p)
      case Nil
      then have "prefix u (c # cs)" using e by (simp add: prefix_def)
      then show ?thesis by simp
    next
      case (Cons a p')
      then have "cs = p' @ u @ q" using e by simp
      then have "is_substr u cs" using Cons.IH by blast
      then show ?thesis by simp
    qed
  qed
qed

lemma default_message_format:
  "py_format E ''{}, but did not find, {} the following values in the preceding output: {}'' [a, b, c] =
     Inr (py_str E a @ '', but did not find, '' @ py_str E b
          @ '' the following values in the preceding output: '' @ py_str E c)"
  by (simp add: py_format_def)

lemma collect_conditions:
  assumes "\<not> truthy (case map_of kw ''case_sensitive'' of Some v \<Rightarrow> v | None \<Rightarrow> PBool False)"
  shows "collect (\<lambda>substr. last_output_contains substr kw) (map PStr vs) s =
           (Inr (map (\<lambda>v. is_substr (lower v) (lower (last_call_output s))) vs), s)"
    and "collect (\<lambda>substr. and_then (last_output_contains substr kw) (\<lambda>b. ok (\<not> b))) (map PStr vs) s =
           (Inr (map (\<lambda>v. \<not> is_substr (lower v) (lower (last_call_output s))) vs), s)"
  using assms
  by (induction vs) (auto simp: last_output_contains_def act_defs Let_def)


lemma and_then_apply:
  "and_then m f s = (case m s of (Inl e, s') \<Rightarrow> (Inl e, s') | (Inr a, s') \<Rightarrow> f a s')"
  by (simp add: and_then_def)

lemma lift_apply: "lift r s = (r, s)"
  by (simp add: lift_def)

lemma ok_apply: "ok a s = (Inr a, s)"
  by (simp add: ok_def)

lemma eq_char_of_iff: "c = char_of (n::nat) \<longleftrightarrow> take_bit 8 n = of_char c"
  using char_of_eq_iff [of n c] by auto

lemma default_kwargs_iff:
  "default_kwargs kwargs \<longleftrightarrow>
     kwargs = [] \<or> (\<exists>msg. kwargs = [(''case_sensitive'', PBool False), (''message'', PStr msg)])"
  by (induction kwargs rule: default_kwargs.induct) auto

lemma contain_checker_any:
  assumes "default_kwargs kwargs"
  shows "\<exists>m. contain_checker E AssertThat Any True (map PStr vs) kwargs s =
           assert_that E (PBool (\<exists>v\<in>set vs. is_substr (lower v) (lower (last_call_output s)))) (PStr m) [] s"
  using assms
  by (auto simp: default_kwargs_iff contain_checker_def check_several_def default_message_format
      collect_conditions list_ex_iff Let_def and_then_apply lift_apply ok_apply)

lemma contain_checker_none:
  assumes "default_kwargs kwargs"
  shows "\<exists>m. contain_checker E AssertThat All False (map PStr vs) kwargs s =
           assert_that E (PBool (\<forall>v\<in>set vs. \<not> is_substr (lower v) (lower (last_call_output s)))) (PStr m) [] s"
  using assms
  by (auto simp: default_kwargs_iff contain_checker_def check_several_def default_message_format
      collect_conditions list_all_iff Let_def and_then_apply lift_apply ok_apply)

lemma assert_that_true: "truthy condition \<Longrightarrow> assert_that E condition message args s = (Inr (), s)"
  by (simp add: assert_that_def ok_def)

lemma literal_values:
  "collect (get_variable_or_literal E) (map (\<lambda>v. PDict [(''literal'', v)]) vals) s = (Inr vals, s)"
  by (induction vals) (simp_all add: get_variable_or_literal_def act_defs)

lemma containment_directive:
  assumes "vals \<noteq> []"
    and "name \<in> {''assert_contains_any'', ''assert_excludes'', ''assert_not_contains'',
                  ''assert_contains'', ''assert_excludes_any''}"
  shows "run_segment E (PDict [(name, PList (map (\<lambda>v. PDict [(''literal'', v)]) vals))]) s =
           invoke_at E None name vals [(''case_sensitive'', PBool False), (''message'', PStr [])] s"
proof -
  obtain v vs' where vs: "vals = v # vs'" using assms(1) by (cases vals) auto
  have f: "py_first (PList (map (\<lambda>v. PDict [(''literal'', v)]) vals)) = Inr (PDict [(''literal'', v)])"
    by (simp add: vs)
  have n: "name \<noteq> ''code''" using assms(2) by auto
  have p: "params_for_contains E (PList (map (\<lambda>v. PDict [(''literal'', v)]) vals)) s =
             (Inr (Some vals, Some [(''case_sensitive'', PBool False), (''message'', PStr [])]), s)"
    by (simp add: params_for_contains_def string_and_params_def get_yaml_values_def f literal_values
        and_then_apply lift_apply ok_apply del: py_first.simps)
  have b: "builtins s name = Some (PFun name, Some Params_for_contains)"
    using assms(2) by (auto simp: builtins_def builtins_table_def)
  show ?thesis
    by (simp add: run_segment_def b adapt_def p call_value_def invoke_other [OF n]
        and_then_apply lift_apply ok_apply reading_apply)
qed

text \<open>
  A value that is not a string has no \<open>lower\<close>: the list of conditions is built in full
  before \<open>any\<close> or \<open>all\<close> sees it, so the first such value ends the check, whatever the
  other values are.
\<close>

lemma collect_conditions_not_str:
  assumes "\<not> truthy (case map_of kw ''case_sensitive'' of Some v \<Rightarrow> v | None \<Rightarrow> PBool False)"
    and "\<not> list_all is_str vals"
  shows "collect (\<lambda>substr. last_output_contains substr kw) vals s = (Inl AttributeError, s)"
    and "collect (\<lambda>substr. and_then (last_output_contains substr kw) (\<lambda>b. ok (\<not> b))) vals s =
           (Inl AttributeError, s)"
  using assms
  by (induction vals)
     (auto simp: last_output_contains_def act_defs Let_def split: pyval.splits)

lemma contain_checker_not_str:
  assumes "default_kwargs kwargs" and "\<not> list_all is_str vals"
  shows "contain_checker E check which contains vals kwargs s = (Inl AttributeError, s)"
  using assms
  by (cases contains)
     (auto simp: default_kwargs_iff contain_checker_def check_several_def default_message_format
      collect_conditions_not_str Let_def and_then_apply lift_apply ok_apply)

text \<open>
  C7, as the code has it. With the default keyword arguments and values that are strings,
  \<open>assert_contains_any\<close> passes, that is returns and leaves the case as it was, exactly
  when one of the values occurs in the last output, both in lower case; and when one of
  the values occurs in the last output, both in lower case, \<open>assert_excludes\<close> records a
  failure under \<open>FAILED ASSERTION\<close> and raises, which ends the stage. When one of the
  values is not a string (a literal number of the YAML file, a variable that
  \<open>extract_match\<close> left at \<open>None\<close>), \<open>substr.lower()\<close> raises \<open>AttributeError\<close> in both
  checks, whatever the other values and the output are: nothing passes, and no failure is
  recorded by the check. A directive of a stage that lists literal values calls the check
  with the default keyword arguments (\<open>containment_directive\<close>).
\<close>

theorem contains_any_and_excludes:
  assumes "default_kwargs kwargs"
  shows "(invoke_at E inner ''assert_contains_any'' (map PStr vs) kwargs s = (Inr (), s))
           = (\<exists>v\<in>set vs. is_substr (lower v) (lower (last_call_output s)))
       \<and> ((\<exists>v\<in>set vs. is_substr (lower v) (lower (last_call_output s))) \<longrightarrow>
            (\<exists>e m. fst (invoke_at E inner ''assert_excludes'' (map PStr vs) kwargs s) = Inl e
                 \<and> failures (snd (invoke_at E inner ''assert_excludes'' (map PStr vs) kwargs s))
                     = failures s @ [(''FAILED ASSERTION'', PStr m, [])]))
       \<and> ((\<exists>v\<in>set vals. \<not> is_str v) \<longrightarrow>
            invoke_at E inner ''assert_contains_any'' vals kwargs s = (Inl AttributeError, s)
          \<and> invoke_at E inner ''assert_excludes'' vals kwargs s = (Inl AttributeError, s))"
proof (intro conjI)
  obtain m where a: "contain_checker E AssertThat Any True (map PStr vs) kwargs s =
           assert_that E (PBool (\<exists>v\<in>set vs. is_substr (lower v) (lower (last_call_output s)))) (PStr m) [] s"
    using contain_checker_any [OF assms] by blast
  have i: "invoke_at E inner ''assert_contains_any'' args kwargs =
             contain_checker E AssertThat Any True args kwargs" for args
    by (simp add: invoke_at_def)
  show "(invoke_at E inner ''assert_contains_any'' (map PStr vs) kwargs s = (Inr (), s))
           = (\<exists>v\<in>set vs. is_substr (lower v) (lower (last_call_output s)))"
  proof (cases "\<exists>v\<in>set vs. is_substr (lower v) (lower (last_call_output s))")
    case True
    then show ?thesis by (simp add: i a assert_that_true)
  next
    case False
    then have "\<exists>e. fst (assert_that E (PBool (\<exists>v\<in>set vs. is_substr (lower v) (lower (last_call_output s))))
                 (PStr m) [] s) = Inl e"
      using assert_that_false [of "PBool False" E "PStr m" "[]" s] by simp
    then show ?thesis using False by (auto simp: i a)
  qed
  obtain m' where b: "contain_checker E AssertThat All False (map PStr vs) kwargs s =
           assert_that E (PBool (\<forall>v\<in>set vs. \<not> is_substr (lower v) (lower (last_call_output s)))) (PStr m') [] s"
    using contain_checker_none [OF assms] by blast
  have j: "invoke_at E inner ''assert_excludes'' args kwargs =
             contain_checker E AssertThat All False args kwargs" for args
    by (simp add: invoke_at_def)
  show "(\<exists>v\<in>set vs. is_substr (lower v) (lower (last_call_output s))) \<longrightarrow>
            (\<exists>e m. fst (invoke_at E inner ''assert_excludes'' (map PStr vs) kwargs s) = Inl e
                 \<and> failures (snd (invoke_at E inner ''assert_excludes'' (map PStr vs) kwargs s))
                     = failures s @ [(''FAILED ASSERTION'', PStr m, [])])"
  proof
    assume "\<exists>v\<in>set vs. is_substr (lower v) (lower (last_call_output s))"
    then have f: "\<not> truthy (PBool (\<forall>v\<in>set vs. \<not> is_substr (lower v) (lower (last_call_output s))))"
      by simp
    show "\<exists>e m. fst (invoke_at E inner ''assert_excludes'' (map PStr vs) kwargs s) = Inl e
                 \<and> failures (snd (invoke_at E inner ''assert_excludes'' (map PStr vs) kwargs s))
                     = failures s @ [(''FAILED ASSERTION'', PStr m, [])]"
      using assert_that_false [OF f, of E "PStr m'" "[]" s] by (auto simp: j b)
  qed
  show "(\<exists>v\<in>set vals. \<not> is_str v) \<longrightarrow>
            invoke_at E inner ''assert_contains_any'' vals kwargs s = (Inl AttributeError, s)
          \<and> invoke_at E inner ''assert_excludes'' vals kwargs s = (Inl AttributeError, s)"
    by (simp add: i j contain_checker_not_str [OF assms] list_all_iff)
qed

theorem contains_any_and_excludes_witness:
  "default_kwargs []
   \<and> (\<exists>v\<in>set [''a'', ''x'']. is_substr (lower v) (lower (last_call_output shouting_state)))
   \<and> invoke_at demo_world None ''assert_contains_any'' (map PStr [''a'', ''x'']) [] shouting_state
        = (Inr (), shouting_state)
   \<and> (\<exists>v\<in>set [''x'']. is_substr (lower v) (lower (last_call_output shouting_state)))
   \<and> (\<exists>e m. fst (invoke_at demo_world None ''assert_excludes'' (map PStr [''x'']) [] shouting_state) = Inl e
          \<and> failures (snd (invoke_at demo_world None ''assert_excludes'' (map PStr [''x'']) [] shouting_state))
               = failures shouting_state @ [(''FAILED ASSERTION'', PStr m, [])])
   \<and> (\<exists>v\<in>set [PStr ''x'', PNone]. \<not> is_str v)
   \<and> invoke_at demo_world None ''assert_contains_any'' [PStr ''x'', PNone] [] shouting_state
        = (Inl AttributeError, shouting_state)
   \<and> invoke_at demo_world None ''assert_excludes'' [PStr ''x'', PNone] [] shouting_state
        = (Inl AttributeError, shouting_state)"
proof -
  have k: "default_kwargs []" by simp
  have x: "is_substr (lower ''x'') (lower (last_call_output shouting_state))"
    by (simp add: shouting_state_def lower_def lower_char_def char_of_eq_iff eq_char_of_iff)
  have e1: "\<exists>v\<in>set [''a'', ''x'']. is_substr (lower v) (lower (last_call_output shouting_state))"
    using x by simp
  have e2: "\<exists>v\<in>set [''x'']. is_substr (lower v) (lower (last_call_output shouting_state))"
    using x by simp
  have n: "\<exists>v\<in>set [PStr ''x'', PNone]. \<not> is_str v" by simp
  show ?thesis
    using contains_any_and_excludes [OF k, where E = demo_world and inner = None
            and vs = "[''a'', ''x'']" and s = shouting_state and vals = "[PStr ''x'', PNone]"]
          contains_any_and_excludes [OF k, where E = demo_world and inner = None
            and vs = "[''x'']" and s = shouting_state and vals = "[PStr ''x'', PNone]"] k e1 e2 n
    by blast
qed

text \<open>
  The last output \<open>X marks the spot\<close> contains \<open>x\<close> in lower case. A directive that lists
  the literals \<open>x\<close> and \<open>42\<close> still does not pass as \<open>assert_contains_any\<close>, and as
  \<open>assert_excludes\<close> it records no failure: both raise \<open>AttributeError\<close> at \<open>42\<close> and leave
  the case as it was.
\<close>

theorem containment_check_of_a_number:
  "is_substr (lower ''x'') (lower (last_call_output shouting_state))
   \<and> run_segment demo_world
        (PDict [(''assert_contains_any'',
                 PList [PDict [(''literal'', PStr ''x'')], PDict [(''literal'', PInt 42)]])]) shouting_state
        = (Inl AttributeError, shouting_state)
   \<and> run_segment demo_world
        (PDict [(''assert_excludes'',
                 PList [PDict [(''literal'', PStr ''x'')], PDict [(''literal'', PInt 42)]])]) shouting_state
        = (Inl AttributeError, shouting_state)"
proof -
  have x: "is_substr (lower ''x'') (lower (last_call_output shouting_state))"
    by (simp add: shouting_state_def lower_def lower_char_def char_of_eq_iff eq_char_of_iff)
  have k: "default_kwargs [(''case_sensitive'', PBool False), (''message'', PStr [])]" by simp
  have n: "\<not> list_all is_str [PStr ''x'', PInt 42]" by simp
  have d: "run_segment demo_world (PDict [(name, PList [PDict [(''literal'', PStr ''x'')], PDict [(''literal'', PInt 42)]])])
             shouting_state =
           invoke_at demo_world None name [PStr ''x'', PInt 42]
             [(''case_sensitive'', PBool False), (''message'', PStr [])] shouting_state"
    if "name \<in> {''assert_contains_any'', ''assert_excludes'', ''assert_not_contains'',
                  ''assert_contains'', ''assert_excludes_any''}" for name
    using containment_directive [of "[PStr ''x'', PInt 42]" name demo_world shouting_state] that by simp
  have a: "run_segment demo_world
        (PDict [(''assert_contains_any'',
                 PList [PDict [(''literal'', PStr ''x'')], PDict [(''literal'', PInt 42)]])]) shouting_state
        = (Inl AttributeError, shouting_state)"
    by (simp add: d invoke_at_def contain_checker_not_str [OF k n])
  have b: "run_segment demo_world
        (PDict [(''assert_excludes'',
                 PList [PDict [(''literal'', PStr ''x'')], PDict [(''literal'', PInt 42)]])]) shouting_state
        = (Inl AttributeError, shouting_state)"
    by (simp add: d invoke_at_def contain_checker_not_str [OF k n])
  show ?thesis using x a b by simp
qed

subsection \<open>Extracting a match\<close>

text \<open>
  C8. With a pattern and a variable name, both non-empty, and no groups: when \<open>re.search\<close>
  finds a match with at least one group in the last output, \<open>extract_match\<close> binds the
  variable to the first group (for the pattern \<open>(\d+)\<close> and the output \<open>count: 42\<close> the
  string \<open>42\<close>, as the example after it shows); when it finds no match, the variable is bound to
  \<open>None\<close> and nothing is raised. With both a variable and groups, or with neither (each
  counted as given when it is true in Python's sense, as the code tests them),
  \<open>extract_match\<close> raises \<open>ConfigError\<close> and changes nothing. The directive
  \<open>extract_match\<close> of a stage passes the \<open>pattern\<close>, \<open>variable\<close> and \<open>groups\<close> of its
  argument block, \<open>None\<close> for a missing one.
\<close>

theorem extract_match_binds:
  "(p \<noteq> [] \<and> v \<noteq> [] \<and> re_search E p (last_call_output s) = Inr (Some (c # cs)) \<longrightarrow>
      extract_match E (PStr p) (PStr v) PNone s =
        (Inr (), s\<lparr>local_symbols := (local_symbols s)(PStr v \<mapsto> capture_value c)\<rparr>))
   \<and> (p \<noteq> [] \<and> v \<noteq> [] \<and> re_search E p (last_call_output s) = Inr None \<longrightarrow>
      extract_match E (PStr p) (PStr v) PNone s =
        (Inr (), s\<lparr>local_symbols := (local_symbols s)(PStr v \<mapsto> PNone)\<rparr>))
   \<and> ((truthy variable \<and> truthy group_variables) \<or> (\<not> truthy variable \<and> \<not> truthy group_variables) \<longrightarrow>
      (\<exists>m. extract_match E pattern variable group_variables s = (Inl (ConfigError m), s)))
   \<and> run_segment E (PDict [(''extract_match'', PDict kvs)]) s =
        extract_match E (entry kvs ''pattern'') (entry kvs ''variable'') (entry kvs ''groups'') s"
proof (intro conjI)
  show "p \<noteq> [] \<and> v \<noteq> [] \<and> re_search E p (last_call_output s) = Inr (Some (c # cs)) \<longrightarrow>
      extract_match E (PStr p) (PStr v) PNone s =
        (Inr (), s\<lparr>local_symbols := (local_symbols s)(PStr v \<mapsto> capture_value c)\<rparr>)"
    by (simp add: extract_match_def set_symbol_def act_defs)
  show "p \<noteq> [] \<and> v \<noteq> [] \<and> re_search E p (last_call_output s) = Inr None \<longrightarrow>
      extract_match E (PStr p) (PStr v) PNone s =
        (Inr (), s\<lparr>local_symbols := (local_symbols s)(PStr v \<mapsto> PNone)\<rparr>)"
    by (simp add: extract_match_def set_symbol_def act_defs)
  show "(truthy variable \<and> truthy group_variables) \<or> (\<not> truthy variable \<and> \<not> truthy group_variables) \<longrightarrow>
      (\<exists>m. extract_match E pattern variable group_variables s = (Inl (ConfigError m), s))"
    by (auto simp: extract_match_def raise_def)
  show "run_segment E (PDict [(''extract_match'', PDict kvs)]) s =
        extract_match E (entry kvs ''pattern'') (entry kvs ''variable'') (entry kvs ''groups'') s"
    by (simp add: run_segment_def builtins_def builtins_table_def adapt_def yaml_extract_match_def
        call_value_def invoke_other invoke_at_def entry_def act_defs Let_def)
qed

theorem extract_match_binds_witness:
  "re_search demo_world digits_pattern (last_call_output count_state) = Inr (Some [Some ''42''])
   \<and> extract_match demo_world (PStr digits_pattern) (PStr ''n'') PNone count_state =
        (Inr (), count_state\<lparr>local_symbols := (local_symbols count_state)(PStr ''n'' \<mapsto> PStr ''42'')\<rparr>)
   \<and> re_search demo_world digits_pattern (last_call_output after_echo) = Inr None
   \<and> extract_match demo_world (PStr digits_pattern) (PStr ''n'') PNone after_echo =
        (Inr (), after_echo\<lparr>local_symbols := (local_symbols after_echo)(PStr ''n'' \<mapsto> PNone)\<rparr>)
   \<and> truthy (PStr ''n'') \<and> truthy (PList [PStr ''a''])
   \<and> (\<exists>m. extract_match demo_world (PStr digits_pattern) (PStr ''n'') (PList [PStr ''a'']) count_state
            = (Inl (ConfigError m), count_state))
   \<and> \<not> truthy PNone
   \<and> (\<exists>m. extract_match demo_world (PStr digits_pattern) PNone PNone count_state
            = (Inl (ConfigError m), count_state))"
proof -
  have p: "digits_pattern \<noteq> []" by (simp add: digits_pattern_def)
  have n: "''n'' \<noteq> []" by simp
  have r1: "re_search demo_world digits_pattern (last_call_output count_state) = Inr (Some [Some ''42''])"
    by (simp add: demo_world_def count_state_def is_digit_def)
  have r2: "re_search demo_world digits_pattern (last_call_output after_echo) = Inr None"
    by (simp add: demo_world_def after_echo_last_call is_digit_def)
  have t1: "truthy (PStr ''n'')" and t2: "truthy (PList [PStr ''a''])" and t3: "\<not> truthy PNone"
    by simp_all
  note a = extract_match_binds [of digits_pattern "''n''" demo_world count_state "Some ''42''" "[]"
              "PStr ''n''" "PList [PStr ''a'']" "PStr digits_pattern" "[]"]
  note b = extract_match_binds [of digits_pattern "''n''" demo_world after_echo "None" "[]"
              PNone PNone "PStr digits_pattern" "[]"]
  have c: "extract_match demo_world (PStr digits_pattern) (PStr ''n'') PNone count_state =
        (Inr (), count_state\<lparr>local_symbols := (local_symbols count_state)(PStr ''n'' \<mapsto> PStr ''42'')\<rparr>)"
    using a p n r1 by (simp add: capture_value_def)
  have d: "extract_match demo_world (PStr digits_pattern) (PStr ''n'') PNone after_echo =
        (Inr (), after_echo\<lparr>local_symbols := (local_symbols after_echo)(PStr ''n'' \<mapsto> PNone)\<rparr>)"
    using b p n r2 by simp
  have e: "\<exists>m. extract_match demo_world (PStr digits_pattern) (PStr ''n'') (PList [PStr ''a'']) count_state
            = (Inl (ConfigError m), count_state)"
    using a t1 t2 by blast
  have f: "\<exists>m. extract_match demo_world (PStr digits_pattern) PNone PNone count_state
            = (Inl (ConfigError m), count_state)"
    using extract_match_binds [of digits_pattern "''n''" demo_world count_state "None" "[]"
              PNone PNone "PStr digits_pattern" "[]"] t3 by blast
  show ?thesis
    using r1 c r2 d t1 t2 e t3 f by blast
qed

end
